theory Spec2Isabelle
  imports Complex_Main "HOL-Library.Word" "HOL-Library.Log_Nat" "HOL-Library.Sublist"
begin

section \<open>Machine integers\<close>

text \<open>
  The program is C99 compiled with gcc for an LP64 target: \<open>int\<close> has 32 bits, \<open>long\<close>,
  \<open>time_t\<close> and \<open>size_t\<close> have 64 bits, pointers and \<open>double\<close> occupy 8 bytes.
  Signed values are read with \<open>sint\<close>. Signed overflow and every other operation the C
  standard leaves undefined is an explicit outcome \<open>Inl Undefined\<close> of the model.
\<close>

type_synonym c_int = "32 word"
type_synonym c_long = "64 word"
type_synonym time_t = "64 word"
type_synonym size_t = "64 word"

datatype fault = Undefined

definition INT_MAX :: c_int where
  "INT_MAX = 2147483647"

definition LONG_MAX :: c_long where
  "LONG_MAX = 9223372036854775807"

definition MAX_NAME_LENGTH :: nat where
  "MAX_NAME_LENGTH = 256"

definition SECONDS_PER_DAY :: c_int where
  "SECONDS_PER_DAY = 24 * 60 * 60"

text \<open>
  \<open>sizeof(T) * n\<close> for an 8-byte \<open>T\<close> and an \<open>int n\<close>: the count is converted to
  \<open>size_t\<close> (sign extension), the product wraps modulo \<open>2^64\<close>. \<open>elem_count n\<close> is the
  number of whole 8-byte elements in a request of that many bytes.
\<close>

definition byte_size :: "c_int \<Rightarrow> size_t" where
  "byte_size n = 8 * scast n"

definition elem_count :: "c_int \<Rightarrow> nat" where
  "elem_count n = unat (byte_size n) div 8"

section \<open>Doubles\<close>

text \<open>
  A \<open>double\<close> is an IEEE 754 binary64 value: a NaN, an infinity, a negative zero, or a
  finite real (\<open>Fin 0\<close> is the positive zero). Arithmetic computes the exact result and
  rounds it to the nearest binary64 value, ties to even.
\<close>

datatype double = NaN | PInf | NInf | NZero | Fin real

definition is_nan :: "double \<Rightarrow> bool" where
  "is_nan x = (x = NaN)"

definition is_inf :: "double \<Rightarrow> bool" where
  "is_inf x = (x = PInf \<or> x = NInf)"

fun val :: "double \<Rightarrow> real" where
  "val (Fin r) = r"
| "val _ = 0"

fun sign_bit :: "double \<Rightarrow> bool" where
  "sign_bit NInf = True"
| "sign_bit NZero = True"
| "sign_bit (Fin r) = (r < 0)"
| "sign_bit _ = False"

definition is_zero :: "double \<Rightarrow> bool" where
  "is_zero x = (x = NZero \<or> x = Fin 0)"

definition mk_inf :: "bool \<Rightarrow> double" where
  "mk_inf s = (if s then NInf else PInf)"

definition mk_fin :: "bool \<Rightarrow> real \<Rightarrow> double" where
  "mk_fin s a = (if a = 0 then (if s then NZero else Fin 0) else Fin (if s then - a else a))"

definition pow2 :: "int \<Rightarrow> real" where
  "pow2 k = (if 0 \<le> k then 2 ^ nat k else 1 / 2 ^ nat (- k))"

text \<open>\<open>ilog2 a\<close> is \<open>\<lfloor>log\<^sub>2 a\<rfloor>\<close> for \<open>a > 0\<close>.\<close>

definition ilog2 :: "real \<Rightarrow> int" where
  "ilog2 a = (if 1 \<le> a then bitlen \<lfloor>a\<rfloor> - 1 else - bitlen (\<lceil>1 / a\<rceil> - 1))"

definition round_even :: "real \<Rightarrow> int" where
  "round_even x =
     (let f = \<lfloor>x\<rfloor>; r = x - of_int f
      in if r < 1 / 2 then f else if 1 / 2 < r then f + 1 else if even f then f else f + 1)"

text \<open>
  Rounding of a magnitude \<open>a \<ge> 0\<close> with sign \<open>s\<close>: 53 significant bits, exponents from
  \<open>-1022\<close> (below that the spacing stays \<open>2^-1074\<close>) to \<open>1023\<close>, overflow to infinity.
\<close>

definition round_mag :: "bool \<Rightarrow> real \<Rightarrow> double" where
  "round_mag s a =
     (if a = 0 then mk_fin s 0
      else let e = max (ilog2 a) (- 1022);
               u = pow2 (e - 52);
               r = of_int (round_even (a / u)) * u
           in if pow2 1024 \<le> r then mk_inf s else mk_fin s r)"

definition real_to_double :: "real \<Rightarrow> double" where
  "real_to_double q = round_mag (q < 0) \<bar>q\<bar>"

definition int_to_double :: "int \<Rightarrow> double" where
  "int_to_double i = real_to_double (of_int i)"

definition dmul :: "double \<Rightarrow> double \<Rightarrow> double" where
  "dmul x y =
     (if is_nan x \<or> is_nan y then NaN
      else if is_inf x \<or> is_inf y then
        (if is_zero x \<or> is_zero y then NaN else mk_inf (sign_bit x \<noteq> sign_bit y))
      else round_mag (sign_bit x \<noteq> sign_bit y) (\<bar>val x\<bar> * \<bar>val y\<bar>))"

definition ddiv :: "double \<Rightarrow> double \<Rightarrow> double" where
  "ddiv x y =
     (if is_nan x \<or> is_nan y then NaN
      else if is_inf x then (if is_inf y then NaN else mk_inf (sign_bit x \<noteq> sign_bit y))
      else if is_inf y then mk_fin (sign_bit x \<noteq> sign_bit y) 0
      else if is_zero y then (if is_zero x then NaN else mk_inf (sign_bit x \<noteq> sign_bit y))
      else round_mag (sign_bit x \<noteq> sign_bit y) (\<bar>val x\<bar> / \<bar>val y\<bar>))"

definition dadd :: "double \<Rightarrow> double \<Rightarrow> double" where
  "dadd x y =
     (if is_nan x \<or> is_nan y then NaN
      else if is_inf x then (if is_inf y \<and> sign_bit x \<noteq> sign_bit y then NaN else x)
      else if is_inf y then y
      else let v = val x + val y
           in if v = 0 then mk_fin (sign_bit x \<and> sign_bit y) 0 else round_mag (v < 0) \<bar>v\<bar>)"

fun dneg :: "double \<Rightarrow> double" where
  "dneg NaN = NaN"
| "dneg PInf = NInf"
| "dneg NInf = PInf"
| "dneg NZero = Fin 0"
| "dneg (Fin r) = (if r = 0 then NZero else Fin (- r))"

definition dsub :: "double \<Rightarrow> double \<Rightarrow> double" where
  "dsub x y = dadd x (dneg y)"

fun fabs :: "double \<Rightarrow> double" where
  "fabs NaN = NaN"
| "fabs PInf = PInf"
| "fabs NInf = PInf"
| "fabs NZero = Fin 0"
| "fabs (Fin r) = Fin \<bar>r\<bar>"

text \<open>\<open>dle x y\<close> is the C comparison \<open>x <= y\<close>: false when an operand is a NaN.\<close>

definition dle :: "double \<Rightarrow> double \<Rightarrow> bool" where
  "dle x y =
     (\<not> is_nan x \<and> \<not> is_nan y \<and>
      (x = NInf \<or> y = PInf \<or> (\<not> is_inf x \<and> \<not> is_inf y \<and> val x \<le> val y)))"

text \<open>
  \<open>fmax\<close> and \<open>fmin\<close> of the C library: when one argument is a NaN the other is
  returned; otherwise the larger (smaller), the first argument when they compare equal.
\<close>

definition fmax :: "double \<Rightarrow> double \<Rightarrow> double" where
  "fmax x y = (if dle y x \<or> is_nan y then x else y)"

definition fmin :: "double \<Rightarrow> double \<Rightarrow> double" where
  "fmin x y = (if dle x y \<or> is_nan y then x else y)"

text \<open>
  \<open>fmod x y\<close> is \<open>x - n * y\<close> for the integer \<open>n\<close> that is \<open>x / y\<close> truncated towards
  zero; the result has the sign of \<open>x\<close> and is exact.
\<close>

definition fmod :: "double \<Rightarrow> double \<Rightarrow> double" where
  "fmod x y =
     (if is_nan x \<or> is_nan y \<or> is_inf x \<or> is_zero y then NaN
      else if is_inf y then x
      else mk_fin (sign_bit x) (\<bar>val x\<bar> - \<bar>val y\<bar> * of_int \<lfloor>\<bar>val x\<bar> / \<bar>val y\<bar>\<rfloor>))"

text \<open>
  Conversion of a double to \<open>long\<close> truncates towards zero; it is undefined when the
  truncated value is not a \<open>long\<close> (C99 6.3.1.4), in particular for NaN and infinities.
\<close>

definition double_to_long :: "double \<Rightarrow> fault + c_long" where
  "double_to_long x =
     (if is_nan x \<or> is_inf x then Inl Undefined
      else let t = (if val x < 0 then - \<lfloor>- val x\<rfloor> else \<lfloor>val x\<rfloor>)
           in if - (2 ^ 63) \<le> t \<and> t < 2 ^ 63 then Inr (word_of_int t) else Inl Undefined)"

text \<open>
  The C library function \<open>difftime\<close>: the difference of two calendar times in seconds,
  converted to a double.
\<close>

definition difftime :: "time_t \<Rightarrow> time_t \<Rightarrow> double" where
  "difftime t1 t0 = int_to_double (sint t1 - sint t0)"

section \<open>Strings\<close>

text \<open>
  A \<open>char *\<close> argument is modelled by the characters it points to, the null pointer by
  \<open>None\<close>. A C string ends at its first NUL character.
\<close>

definition c_str :: "string \<Rightarrow> string" where
  "c_str s = takeWhile (\<lambda>c. c \<noteq> CHR 0x00) s"

definition strlen :: "string \<Rightarrow> nat" where
  "strlen s = length (c_str s)"

text \<open>
  \<open>strstr haystack needle\<close>: the offset of the first occurrence of \<open>needle\<close>, \<open>None\<close>
  for the null pointer that reports no occurrence.
\<close>

fun find_first :: "string \<Rightarrow> string \<Rightarrow> nat option" where
  "find_first [] needle = (if needle = [] then Some 0 else None)"
| "find_first (c # cs) needle =
     (if prefix needle (c # cs) then Some 0 else map_option Suc (find_first cs needle))"

definition strstr :: "string \<Rightarrow> string \<Rightarrow> nat option" where
  "strstr haystack needle = find_first (c_str haystack) (c_str needle)"

section \<open>Memory\<close>

datatype ptr = NULL | Ptr nat

datatype fnptr = No_Function | Fn_universeEvolveFunction | Fn_entityMakeChoice | Fn_formPrayer

record Universe =
  physicalConstants :: ptr
  numConstants :: c_int
  matter :: ptr
  energy :: ptr
  spacetime :: ptr
  consciousEntities :: ptr
  numEntities :: c_int
  naturalLaws_evolve :: fnptr
  creationTime :: time_t
  totalLifespanDays :: c_long
  entropyLevel :: double
  maxEntropy :: double

record ConsciousEntity =
  consciousness :: ptr
  freeWill :: ptr
  name :: ptr
  makeChoice :: fnptr
  formPrayer :: fnptr
  uniqueId :: c_int

text \<open>
  The heap is the sequence of blocks handed out by the allocator; the address of a block is
  its position. A freed block is \<open>None\<close>, a block that has been allocated and not yet
  written is \<open>Fresh\<close>. Whether an allocation request succeeds is not decided by the
  program: \<open>grants\<close> lists the outcomes of the coming requests, and a request made when
  the list is exhausted fails.
\<close>

datatype block =
    Fresh
  | Doubles "double list"
  | Pointers "ptr list"
  | Chars string
  | God_Object
  | Universe_Object Universe
  | Entity_Object ConsciousEntity

record heap =
  cells :: "block option list"
  grants :: "bool list"

definition load :: "heap \<Rightarrow> nat \<Rightarrow> block option" where
  "load h a = (if a < length (cells h) then cells h ! a else None)"

definition store :: "heap \<Rightarrow> nat \<Rightarrow> block \<Rightarrow> heap" where
  "store h a b = h\<lparr>cells := (cells h)[a := Some b]\<rparr>"

definition malloc :: "heap \<Rightarrow> ptr \<times> heap" where
  "malloc h =
     (case grants h of
        [] \<Rightarrow> (NULL, h)
      | granted # rest \<Rightarrow>
          if granted
          then (Ptr (length (cells h)), h\<lparr>cells := cells h @ [Some Fresh], grants := rest\<rparr>)
          else (NULL, h\<lparr>grants := rest\<rparr>))"

definition free :: "heap \<Rightarrow> ptr \<Rightarrow> heap" where
  "free h p = (case p of NULL \<Rightarrow> h | Ptr a \<Rightarrow> h\<lparr>cells := (cells h)[a := None]\<rparr>)"

text \<open>\<open>strdup\<close>: a fresh block holding a copy of the string, or \<open>NULL\<close>.\<close>

definition strdup :: "heap \<Rightarrow> string \<Rightarrow> ptr \<times> heap" where
  "strdup h s =
     (case malloc h of
        (NULL, h') \<Rightarrow> (NULL, h')
      | (Ptr a, h') \<Rightarrow> (Ptr a, store h' a (Chars (c_str s))))"

text \<open>
  \<open>realloc\<close> of an array of pointers to \<open>n\<close> elements. A null argument makes it a plain
  allocation. On success the old elements are kept (as many as fit), the new ones are
  indeterminate (written here as \<open>NULL\<close>; the caller overwrites them), and the old block
  is released; the model always moves the array to a new address. On failure the old
  block stays as it is. An argument that is not an allocated array is undefined.
\<close>

definition realloc_pointers :: "heap \<Rightarrow> ptr \<Rightarrow> nat \<Rightarrow> fault + ptr \<times> heap" where
  "realloc_pointers h p n =
     (case p of
        NULL \<Rightarrow>
          (case malloc h of
             (NULL, h') \<Rightarrow> Inr (NULL, h')
           | (Ptr b, h') \<Rightarrow> Inr (Ptr b, store h' b (Pointers (replicate n NULL))))
      | Ptr a \<Rightarrow>
          (case load h a of
             Some (Pointers ps) \<Rightarrow>
               (case malloc h of
                  (NULL, h') \<Rightarrow> Inr (NULL, h')
                | (Ptr b, h') \<Rightarrow>
                    Inr (Ptr b,
                         free (store h' b (Pointers (take n ps @ replicate (n - length ps) NULL)))
                              (Ptr a)))
           | _ \<Rightarrow> Inl Undefined))"

section \<open>Entity registry: \<open>createConsciousEntity\<close>\<close>

definition createConsciousEntity ::
  "heap \<Rightarrow> ptr \<Rightarrow> ptr \<Rightarrow> string option \<Rightarrow> fault + ptr \<times> heap" where
  "createConsciousEntity h creator universe name_arg =
     (case (creator, universe, name_arg) of
        (Ptr g, Ptr ua, Some nm) \<Rightarrow>
          if MAX_NAME_LENGTH \<le> strlen nm then Inr (NULL, h)
          else
          (case malloc h of
             (NULL, h1) \<Rightarrow> Inr (NULL, h1)
           | (Ptr ea, h1) \<Rightarrow>
          (case malloc h1 of
             (NULL, h2) \<Rightarrow> Inr (NULL, free h2 (Ptr ea))
           | (Ptr ca, h2) \<Rightarrow>
          (case malloc (store h2 ca (Doubles [Fin 1])) of
             (NULL, h3) \<Rightarrow> Inr (NULL, free (free h3 (Ptr ca)) (Ptr ea))
           | (Ptr fa, h3) \<Rightarrow>
          (case strdup (store h3 fa (Doubles [Fin 1])) nm of
             (NULL, h4) \<Rightarrow> Inr (NULL, free (free (free h4 (Ptr fa)) (Ptr ca)) (Ptr ea))
           | (Ptr na, h4) \<Rightarrow>
          (case load h4 ua of
             Some (Universe_Object U) \<Rightarrow>
               if numEntities U = INT_MAX then Inl Undefined
               else
               let entity = \<lparr>consciousness = Ptr ca, freeWill = Ptr fa, name = Ptr na,
                             makeChoice = Fn_entityMakeChoice, formPrayer = Fn_formPrayer,
                             uniqueId = numEntities U + 1\<rparr>
               in
               (case realloc_pointers h4 (consciousEntities U)
                       (elem_count (numEntities U + 1)) of
                  Inl f \<Rightarrow> Inl f
                | Inr (NULL, h5) \<Rightarrow>
                    Inr (NULL,
                         free (free (free (free h5 (Ptr na)) (Ptr fa)) (Ptr ca)) (Ptr ea))
                | Inr (Ptr ra, h5) \<Rightarrow>
                    (case load h5 ra of
                       Some (Pointers ps) \<Rightarrow>
                         if 0 \<le> sint (numEntities U) \<and> nat (sint (numEntities U)) < length ps
                         then
                           Inr (Ptr ea,
                                store
                                  (store
                                     (store h5 ea (Entity_Object entity))
                                     ra (Pointers (ps[nat (sint (numEntities U)) := Ptr ea])))
                                  ua (Universe_Object
                                        (U\<lparr>consciousEntities := Ptr ra,
                                           numEntities := numEntities U + 1\<rparr>)))
                         else Inl Undefined
                     | _ \<Rightarrow> Inl Undefined))
           | _ \<Rightarrow> Inl Undefined)))))
      | _ \<Rightarrow> Inr (NULL, h))"

section \<open>Constant table: \<open>divinePhysicalConstants\<close>\<close>

text \<open>
  The loop \<open>for (int i = 4; i < numConstants; i++) constants[i] = 1.0 / (i + 1)\<close>. The
  counter stays below \<open>numConstants\<close>, so \<open>i + 1\<close> does not overflow.
\<close>

function fill_rest :: "int \<Rightarrow> int \<Rightarrow> double list \<Rightarrow> double list" where
  "fill_rest i n cs =
     (if i < n then fill_rest (i + 1) n (cs[nat i := ddiv (Fin 1) (int_to_double (i + 1))])
      else cs)"
  by pat_completeness auto
termination
  by (relation "measure (\<lambda>(i, n, cs). nat (n - i))") auto

declare fill_rest.simps [simp del]

text \<open>
  The block returned by \<open>malloc\<close> has indeterminate contents, written here as zeros;
  every slot is assigned before the function returns.
\<close>

definition divinePhysicalConstants :: "heap \<Rightarrow> c_int \<Rightarrow> ptr \<times> heap" where
  "divinePhysicalConstants h numConstants_arg =
     (if sint numConstants_arg \<le> 0 then (NULL, h)
      else
        (case malloc h of
           (NULL, h') \<Rightarrow> (NULL, h')
         | (Ptr a, h') \<Rightarrow>
             let n = sint numConstants_arg;
                 c0 = (replicate (elem_count numConstants_arg) (Fin 0))
                        [0 := real_to_double 299792458.0];
                 c1 = (if 1 < n then c0[1 := real_to_double (6.62607015 / 10 ^ 34)] else c0);
                 c2 = (if 2 < n then c1[2 := real_to_double (6.67430 / 10 ^ 11)] else c1);
                 c3 = (if 3 < n then c2[3 := real_to_double (8.8541878128 / 10 ^ 12)] else c2)
             in (Ptr a, store h' a (Doubles (fill_rest 4 n c3)))))"

section \<open>World state construction: \<open>divineCreateUniverse\<close>\<close>

text \<open>The argument \<open>now\<close> is the calendar time that \<open>time\<close> stores.\<close>

definition divineCreateUniverse :: "heap \<Rightarrow> time_t \<Rightarrow> ptr \<times> heap" where
  "divineCreateUniverse h now =
     (case malloc h of
        (NULL, h1) \<Rightarrow> (NULL, h1)
      | (Ptr nu, h1) \<Rightarrow>
     (case divinePhysicalConstants h1 30 of
        (NULL, h2) \<Rightarrow> (NULL, free h2 (Ptr nu))
      | (Ptr pc, h2) \<Rightarrow>
     (case malloc h2 of
        (NULL, h3) \<Rightarrow> (NULL, free (free h3 (Ptr pc)) (Ptr nu))
      | (Ptr st, h3) \<Rightarrow>
     (case malloc (store h3 st (Doubles (replicate 4 (Fin 0)))) of
        (NULL, h4) \<Rightarrow> (NULL, free (free (free h4 (Ptr st)) (Ptr pc)) (Ptr nu))
      | (Ptr ma, h4) \<Rightarrow>
     (case malloc (store h4 ma (Doubles [Fin 1])) of
        (NULL, h5) \<Rightarrow>
          (NULL, free (free (free (free h5 (Ptr ma)) (Ptr st)) (Ptr pc)) (Ptr nu))
      | (Ptr en, h5) \<Rightarrow>
          (Ptr nu,
           store (store h5 en (Doubles [Fin 1])) nu
             (Universe_Object
                \<lparr>physicalConstants = Ptr pc, numConstants = 30, matter = Ptr ma,
                 energy = Ptr en, spacetime = Ptr st, consciousEntities = NULL,
                 numEntities = 0, naturalLaws_evolve = Fn_universeEvolveFunction,
                 creationTime = now, totalLifespanDays = 5000 * 365,
                 entropyLevel = real_to_double 0.618, maxEntropy = Fin 1\<rparr>)))))))"

section \<open>Transition engine\<close>

text \<open>
  \<open>memcpy\<close> of \<open>n\<close> doubles out of the block at \<open>p\<close>; reading from anything but an
  allocated block of at least \<open>n\<close> doubles is undefined (\<open>None\<close>).
\<close>

definition read_doubles :: "heap \<Rightarrow> ptr \<Rightarrow> nat \<Rightarrow> double list option" where
  "read_doubles h p n =
     (case p of
        NULL \<Rightarrow> None
      | Ptr a \<Rightarrow>
          (case load h a of
             Some (Doubles ds) \<Rightarrow> if n \<le> length ds then Some (take n ds) else None
           | _ \<Rightarrow> None))"

text \<open>
  \<open>divineMiracle\<close>. The new \<open>Universe\<close> is filled in field by field in the source; no
  one else can reach it before the function returns, and the model writes the record
  once, when it is complete. The argument \<open>t\<close> is not used.
\<close>

definition divineMiracle :: "heap \<Rightarrow> ptr \<Rightarrow> ptr \<Rightarrow> fault + ptr \<times> heap" where
  "divineMiracle h u t =
     (case u of
        NULL \<Rightarrow> Inr (NULL, h)
      | Ptr ua \<Rightarrow>
     (case malloc h of
        (NULL, h1) \<Rightarrow> Inr (NULL, h1)
      | (Ptr nu, h1) \<Rightarrow>
     (case load h1 ua of
        Some (Universe_Object U) \<Rightarrow>
     (case malloc h1 of
        (NULL, h2) \<Rightarrow> Inr (NULL, free h2 (Ptr nu))
      | (Ptr pc, h2) \<Rightarrow>
     (case read_doubles h2 (physicalConstants U) (elem_count (numConstants U)) of
        None \<Rightarrow> Inl Undefined
      | Some cs \<Rightarrow>
     (case malloc (store h2 pc (Doubles cs)) of
        (NULL, h3) \<Rightarrow> Inr (NULL, free (free h3 (Ptr pc)) (Ptr nu))
      | (Ptr st, h3) \<Rightarrow>
     (case read_doubles h3 (spacetime U) 4 of
        None \<Rightarrow> Inl Undefined
      | Some sp \<Rightarrow>
     (case malloc (store h3 st (Doubles sp)) of
        (NULL, h4) \<Rightarrow> Inr (NULL, free (free (free h4 (Ptr st)) (Ptr pc)) (Ptr nu))
      | (Ptr ma, h4) \<Rightarrow>
     (case read_doubles h4 (matter U) 1 of
        None \<Rightarrow> Inl Undefined
      | Some m \<Rightarrow>
     (case malloc (store h4 ma (Doubles m)) of
        (NULL, h5) \<Rightarrow>
          Inr (NULL, free (free (free (free h5 (Ptr ma)) (Ptr st)) (Ptr pc)) (Ptr nu))
      | (Ptr en, h5) \<Rightarrow>
     (case read_doubles h5 (energy U) 1 of
        None \<Rightarrow> Inl Undefined
      | Some e \<Rightarrow>
          Inr (Ptr nu,
               store (store h5 en (Doubles e)) nu
                 (Universe_Object
                    \<lparr>physicalConstants = Ptr pc, numConstants = numConstants U,
                     matter = Ptr ma, energy = Ptr en, spacetime = Ptr st,
                     consciousEntities = NULL, numEntities = 0,
                     naturalLaws_evolve = naturalLaws_evolve U,
                     creationTime = creationTime U,
                     totalLifespanDays = totalLifespanDays U,
                     entropyLevel = dmul (entropyLevel U) (real_to_double 0.9),
                     maxEntropy = maxEntropy U\<rparr>))))))))))
      | _ \<Rightarrow> Inl Undefined)))"

definition divinePrayerResponse ::
  "heap \<Rightarrow> ptr \<Rightarrow> string option \<Rightarrow> ptr \<Rightarrow> fault + ptr \<times> heap" where
  "divinePrayerResponse h pray_er prayer u =
     (case (pray_er, prayer, u) of
        (Ptr pa, Some msg, Ptr ua) \<Rightarrow>
          (case divineMiracle h u NULL of
             Inl f \<Rightarrow> Inl f
           | Inr (NULL, h1) \<Rightarrow> Inr (NULL, h1)
           | Inr (Ptr nu, h1) \<Rightarrow>
               (case load h1 nu of
                  Some (Universe_Object N) \<Rightarrow>
                    if totalLifespanDays N = LONG_MAX then Inl Undefined
                    else
                      let N1 = N\<lparr>totalLifespanDays := totalLifespanDays N + 1\<rparr>;
                          N2 = (if strstr msg ''guide me'' \<noteq> None
                                then N1\<lparr>entropyLevel :=
                                          dmul (entropyLevel N1) (real_to_double 0.99)\<rparr>
                                else N1)
                      in Inr (Ptr nu, store h1 nu (Universe_Object N2))
                | _ \<Rightarrow> Inl Undefined))
      | _ \<Rightarrow> Inr (NULL, h))"

definition divineCompletion :: "heap \<Rightarrow> ptr \<Rightarrow> fault + ptr \<times> heap" where
  "divineCompletion h u =
     (case u of
        NULL \<Rightarrow> Inr (NULL, h)
      | Ptr ua \<Rightarrow>
          (case divineMiracle h u NULL of
             Inl f \<Rightarrow> Inl f
           | Inr (NULL, h1) \<Rightarrow> Inr (NULL, h1)
           | Inr (Ptr nu, h1) \<Rightarrow>
               (case load h1 nu of
                  Some (Universe_Object N) \<Rightarrow>
                    Inr (Ptr nu,
                         store h1 nu (Universe_Object (N\<lparr>entropyLevel := maxEntropy N\<rparr>)))
                | _ \<Rightarrow> Inl Undefined)))"

section \<open>Terminal-time calculator: \<open>calculateEndOfWorld\<close>\<close>

definition read_double :: "heap \<Rightarrow> ptr \<Rightarrow> int \<Rightarrow> double option" where
  "read_double h p i =
     (case p of
        NULL \<Rightarrow> None
      | Ptr a \<Rightarrow>
          (case load h a of
             Some (Doubles ds) \<Rightarrow> if 0 \<le> i \<and> nat i < length ds then Some (ds ! nat i) else None
           | _ \<Rightarrow> None))"

text \<open>
  The loop over the first ten constants; \<open>acc\<close> is \<open>physicalInfluence\<close>. The counter
  stays within \<open>0..10\<close>.
\<close>

function physical_loop :: "heap \<Rightarrow> Universe \<Rightarrow> int \<Rightarrow> double \<Rightarrow> fault + double" where
  "physical_loop h U i acc =
     (if i < sint (numConstants U) \<and> i < 10 then
        (case read_double h (physicalConstants U) i of
           None \<Rightarrow> Inl Undefined
         | Some c \<Rightarrow>
             let normalizedConstant = ddiv c (dadd (fabs c) (Fin 1))
             in physical_loop h U (i + 1)
                  (dadd acc (ddiv normalizedConstant (int_to_double (i + 1)))))
      else Inr acc)"
  by pat_completeness auto
termination
  by (relation "measure (\<lambda>(h, U, i, acc). nat (10 - i))") auto

declare physical_loop.simps [simp del]

text \<open>The argument \<open>now\<close> is the calendar time that \<open>time\<close> stores.\<close>

definition calculateEndOfWorld :: "heap \<Rightarrow> time_t \<Rightarrow> ptr \<Rightarrow> fault + c_long" where
  "calculateEndOfWorld h now universe =
     (case universe of
        NULL \<Rightarrow> Inr (- 1)
      | Ptr ua \<Rightarrow>
          (case load h ua of
             Some (Universe_Object U) \<Rightarrow>
               let timeElapsedSeconds = difftime now (creationTime U);
                   daysSinceCreation =
                     ddiv timeElapsedSeconds (int_to_double (sint SECONDS_PER_DAY));
                   entropyRatio = ddiv (entropyLevel U) (maxEntropy U);
                   daysRemaining =
                     fmax (Fin 0)
                       (dsub (int_to_double (sint (totalLifespanDays U))) daysSinceCreation);
                   ESCHATOLOGICAL_CONSTANT = real_to_double 0.12345
               in
               (case physical_loop h U 0 (Fin 0) of
                  Inl f \<Rightarrow> Inl f
                | Inr s \<Rightarrow>
                    let physicalInfluence = fmod (fabs s) (Fin 100);
                        consciousnessInfluence =
                          fmin (Fin 1000)
                            (dmul (int_to_double (sint (numEntities U)))
                               ESCHATOLOGICAL_CONSTANT);
                        daysRemaining' =
                          fmax (Fin 0)
                            (dadd
                               (dsub (dmul daysRemaining (dsub (Fin 1) entropyRatio))
                                  (dmul physicalInfluence entropyRatio))
                               consciousnessInfluence)
                    in double_to_long (fmin (int_to_double (sint LONG_MAX)) daysRemaining'))
           | _ \<Rightarrow> Inl Undefined))"

section \<open>Reading a world state out of the heap\<close>

definition get_universe :: "heap \<Rightarrow> ptr \<Rightarrow> Universe option" where
  "get_universe h p =
     (case p of
        NULL \<Rightarrow> None
      | Ptr a \<Rightarrow> (case load h a of Some (Universe_Object U) \<Rightarrow> Some U | _ \<Rightarrow> None))"

definition get_entity :: "heap \<Rightarrow> ptr \<Rightarrow> ConsciousEntity option" where
  "get_entity h p =
     (case p of
        NULL \<Rightarrow> None
      | Ptr a \<Rightarrow> (case load h a of Some (Entity_Object E) \<Rightarrow> Some E | _ \<Rightarrow> None))"

text \<open>The constants sequence of a universe: the \<open>numConstants\<close> doubles of its table.\<close>

definition constants_of :: "heap \<Rightarrow> Universe \<Rightarrow> double list option" where
  "constants_of h U = read_doubles h (physicalConstants U) (elem_count (numConstants U))"

text \<open>
  The entity registry of a universe: the first \<open>numEntities\<close> pointers of its array. A
  universe without entities may have a null array.
\<close>

definition registry :: "heap \<Rightarrow> Universe \<Rightarrow> ptr list option" where
  "registry h U =
     (case consciousEntities U of
        NULL \<Rightarrow> if numEntities U = 0 then Some [] else None
      | Ptr a \<Rightarrow>
          (case load h a of
             Some (Pointers ps) \<Rightarrow>
               if 0 \<le> sint (numEntities U) \<and> nat (sint (numEntities U)) \<le> length ps
               then Some (take (nat (sint (numEntities U))) ps)
               else None
           | _ \<Rightarrow> None))"

definition entity_id :: "heap \<Rightarrow> ptr \<Rightarrow> int option" where
  "entity_id h p = map_option (\<lambda>E. sint (uniqueId E)) (get_entity h p)"

text \<open>
  A universe is readable when the pointers it owns lead to blocks of the right kind and
  size: the transitions copy \<open>numConstants\<close> constants, four space-time coordinates, the
  matter and the energy, and the registry is an array of at least \<open>numEntities\<close> pointers.
\<close>

definition valid_world :: "heap \<Rightarrow> ptr \<Rightarrow> bool" where
  "valid_world h p =
     (case get_universe h p of
        None \<Rightarrow> False
      | Some U \<Rightarrow>
          0 \<le> sint (numConstants U) \<and> constants_of h U \<noteq> None \<and>
          read_doubles h (spacetime U) 4 \<noteq> None \<and>
          read_doubles h (matter U) 1 \<noteq> None \<and>
          read_doubles h (energy U) 1 \<noteq> None \<and>
          registry h U \<noteq> None)"

text \<open>The next \<open>n\<close> allocation requests succeed.\<close>

definition granted :: "nat \<Rightarrow> heap \<Rightarrow> bool" where
  "granted n h = (take n (grants h) = replicate n True)"

text \<open>Appending entities one after the other, as the entry point does for two names.\<close>

fun create_entities :: "heap \<Rightarrow> ptr \<Rightarrow> ptr \<Rightarrow> string list \<Rightarrow> fault + ptr list \<times> heap" where
  "create_entities h creator universe [] = Inr ([], h)"
| "create_entities h creator universe (nm # nms) =
     (case createConsciousEntity h creator universe (Some nm) of
        Inl f \<Rightarrow> Inl f
      | Inr (e, h1) \<Rightarrow>
          (case create_entities h1 creator universe nms of
             Inl f \<Rightarrow> Inl f
           | Inr (es, h2) \<Rightarrow> Inr (e # es, h2)))"

section \<open>A sample state\<close>

text \<open>
  A small heap used to instantiate the theorems: a creator at address 0, a universe at
  address 1 with two constants and no entities, and room for sixteen more allocations.
\<close>

definition sample_universe :: Universe where
  "sample_universe =
     \<lparr>physicalConstants = Ptr 2, numConstants = 2, matter = Ptr 4, energy = Ptr 5,
      spacetime = Ptr 3, consciousEntities = NULL, numEntities = 0,
      naturalLaws_evolve = Fn_universeEvolveFunction, creationTime = 1000,
      totalLifespanDays = 5000 * 365, entropyLevel = Fin (1 / 2), maxEntropy = Fin 1\<rparr>"

definition sample_cells :: "Universe \<Rightarrow> block option list" where
  "sample_cells U =
     [Some God_Object, Some (Universe_Object U), Some (Doubles [Fin 299792458, Fin 1]),
      Some (Doubles [Fin 0, Fin 0, Fin 0, Fin 0]), Some (Doubles [Fin 1]),
      Some (Doubles [Fin 1])]"

definition sample_heap :: "Universe \<Rightarrow> heap" where
  "sample_heap U = \<lparr>cells = sample_cells U, grants = replicate 16 True\<rparr>"

text \<open>
  The same world after the entity \<open>Human1\<close> has been created in it: the entity at
  address 6 with its consciousness, free will and name at 7, 8 and 9, and the registry
  array at 10.
\<close>

definition populated_universe :: Universe where
  "populated_universe = sample_universe\<lparr>consciousEntities := Ptr 10, numEntities := 1\<rparr>"

definition populated_heap :: "Universe \<Rightarrow> heap" where
  "populated_heap U =
     \<lparr>cells = sample_cells U @
        [Some (Entity_Object
                 \<lparr>consciousness = Ptr 7, freeWill = Ptr 8, name = Ptr 9,
                  makeChoice = Fn_entityMakeChoice, formPrayer = Fn_formPrayer,
                  uniqueId = 1\<rparr>),
         Some (Doubles [Fin 1]), Some (Doubles [Fin 1]), Some (Chars ''Human1''),
         Some (Pointers [Ptr 6])],
      grants = replicate 11 True\<rparr>"

section \<open>The state after a successful append\<close>

text \<open>
  \<open>created h ua U es nm h'\<close> describes the heap \<open>h'\<close> after an entity named \<open>nm\<close> has
  been appended to the universe \<open>U\<close> stored at \<open>ua\<close> in \<open>h\<close>, whose registry was \<open>es\<close>:
  the entity is the first new block, with consciousness level and free-will capacity
  \<open>1.0\<close>, a copy of the name and the next identifier; the universe has one more entity
  and a registry extended by the new entity; every other block of \<open>h\<close> except the old
  registry array is as before.
\<close>

definition created :: "heap \<Rightarrow> nat \<Rightarrow> Universe \<Rightarrow> ptr list \<Rightarrow> string \<Rightarrow> heap \<Rightarrow> bool" where
  "created h ua U es nm h' =
     (let L = length (cells h);
          U' = U\<lparr>consciousEntities := Ptr (L + 4), numEntities := numEntities U + 1\<rparr>
      in get_entity h' (Ptr L) =
           Some \<lparr>consciousness = Ptr (L + 1), freeWill = Ptr (L + 2), name = Ptr (L + 3),
                 makeChoice = Fn_entityMakeChoice, formPrayer = Fn_formPrayer,
                 uniqueId = numEntities U + 1\<rparr> \<and>
         load h' (L + 1) = Some (Doubles [Fin 1]) \<and>
         load h' (L + 2) = Some (Doubles [Fin 1]) \<and>
         load h' (L + 3) = Some (Chars (c_str nm)) \<and>
         get_universe h' (Ptr ua) = Some U' \<and>
         registry h' U' = Some (es @ [Ptr L]) \<and>
         (\<forall>a. a < L \<and> a \<noteq> ua \<and> consciousEntities U \<noteq> Ptr a \<longrightarrow> load h' a = load h a) \<and>
         grants h' = drop 5 (grants h) \<and>
         length (cells h') = L + 5)"

section \<open>The constant table in the words of the specification\<close>

text \<open>
  Indices 0 to 3 hold the four reference constants, every index \<open>i \<ge> 4\<close> holds
  \<open>1 / (i + 1)\<close>: each the double nearest to the number written.
\<close>

definition spec_constant :: "nat \<Rightarrow> double" where
  "spec_constant i =
     (if i = 0 then real_to_double 299792458.0
      else if i = 1 then real_to_double (6.62607015 / 10 ^ 34)
      else if i = 2 then real_to_double (6.67430 / 10 ^ 11)
      else if i = 3 then real_to_double (8.8541878128 / 10 ^ 12)
      else real_to_double (1 / (real i + 1)))"


section \<open>Facts about the machine model\<close>

lemma elem_count_nonneg: "0 \<le> sint n \<Longrightarrow> elem_count n = nat (sint n)"
proof -
  assume a: "0 \<le> sint n"
  have b: "sint n < 2 ^ 31" using sint_lt [of n] by simp
  have "(8 * scast n :: 64 word) = 8 * word_of_int (sint n)" by (subst scast_eq) (rule refl)
  also have "\<dots> = word_of_int (8 * sint n)" by simp
  finally have "unat (8 * scast n :: 64 word) = nat ((8 * sint n) mod 2 ^ 64)"
    by (simp only: unat_eq_nat_uint uint_word_of_int take_bit_eq_mod) simp
  also have "\<dots> = nat (8 * sint n)" using a b by (simp add: mod_pos_pos_trivial)
  finally show ?thesis using a by (simp add: elem_count_def byte_size_def)
qed

lemma sint_succ: "x \<noteq> INT_MAX \<Longrightarrow> sint (x + 1) = sint x + 1"
proof -
  assume a: "x \<noteq> INT_MAX"
  have ne: "sint x \<noteq> 2147483647"
  proof
    assume "sint x = 2147483647"
    then have "word_of_int (sint x) = (word_of_int 2147483647 :: 32 word)" by simp
    then show False using a by (simp add: INT_MAX_def)
  qed
  have b: "sint x < 2 ^ 31" "- (2 ^ 31) \<le> sint x"
    using sint_lt [of x] sint_ge [of x] by simp_all
  have "sint (x + 1) = signed_take_bit 31 (sint x + sint (1 :: 32 word))"
    by (simp add: sint_word_ariths)
  also have "\<dots> = signed_take_bit 31 (sint x + 1)" by simp
  also have "\<dots> = sint x + 1"
    using ne b by (intro signed_take_bit_int_eq_self) simp_all
  finally show ?thesis .
qed

lemma sint_succ_long: "x \<noteq> LONG_MAX \<Longrightarrow> sint (x + 1) = sint x + 1"
proof -
  assume a: "x \<noteq> LONG_MAX"
  have ne: "sint x \<noteq> 9223372036854775807"
  proof
    assume "sint x = 9223372036854775807"
    then have "word_of_int (sint x) = (word_of_int 9223372036854775807 :: 64 word)" by simp
    then show False using a by (simp add: LONG_MAX_def)
  qed
  have b: "sint x < 2 ^ 63" "- (2 ^ 63) \<le> sint x"
    using sint_lt [of x] sint_ge [of x] by simp_all
  have "sint (x + 1) = signed_take_bit 63 (sint x + sint (1 :: 64 word))"
    by (simp add: sint_word_ariths)
  also have "\<dots> = signed_take_bit 63 (sint x + 1)" by simp
  also have "\<dots> = sint x + 1"
    using ne b by (intro signed_take_bit_int_eq_self) simp_all
  finally show ?thesis .
qed

lemma sint_INT_MAX: "sint INT_MAX = 2147483647"
  by (simp add: INT_MAX_def)

lemma strlen_replicate: "c \<noteq> CHR 0x00 \<Longrightarrow> strlen (replicate n c) = n"
  by (simp add: strlen_def c_str_def)

lemma find_first_sublist: "find_first hay needle \<noteq> None \<longleftrightarrow> sublist needle hay"
  by (induction hay) (auto simp: sublist_Cons_right)

lemma strstr_guide_me:
  "strstr msg ''guide me'' \<noteq> None \<longleftrightarrow> sublist ''guide me'' (c_str msg)"
proof -
  have "c_str ''guide me'' = ''guide me''" by (simp add: c_str_def)
  then show ?thesis unfolding strstr_def by (simp only: find_first_sublist)
qed

lemma replicate_Cons_numeral: "replicate (numeral k) x = x # replicate (pred_numeral k) x"
  by (simp add: numeral_eq_Suc)

lemma take_Suc_update: "k < length ps \<Longrightarrow> (take (Suc k) ps)[k := x] = take k ps @ [x]"
  by (simp add: take_Suc_conv_app_nth list_update_append)


section \<open>Facts about the heap\<close>

lemma load_Some_iff:
  "load h a = Some b \<longleftrightarrow> a < length (cells h) \<and> cells h ! a = Some b"
  by (simp add: load_def)

lemma granted_1: "granted (Suc 0) h \<Longrightarrow> \<exists>rest. grants h = True # rest"
  by (cases "grants h") (simp_all add: granted_def)

lemma granted_grants:
  "granted 5 h \<Longrightarrow> \<exists>rest. grants h = True # True # True # True # True # rest"
proof -
  assume "granted 5 h"
  then have t: "take 5 (grants h) = [True, True, True, True, True]"
    by (simp add: granted_def eval_nat_numeral)
  have "grants h = take 5 (grants h) @ drop 5 (grants h)" by simp
  then show ?thesis using t by (metis append_Cons append_Nil)
qed

lemma granted_split: "granted (m + n) h \<Longrightarrow> granted m h \<and> take n (drop m (grants h)) = replicate n True"
proof -
  assume "granted (m + n) h"
  then have t: "take (m + n) (grants h) = replicate m True @ replicate n True"
    by (simp add: granted_def replicate_add)
  have "take (m + n) (grants h) = take m (grants h) @ take n (drop m (grants h))"
    by (simp add: take_add)
  with t have e: "take m (grants h) @ take n (drop m (grants h)) = replicate m True @ replicate n True"
    by simp
  have l: "length (take m (grants h)) = m"
  proof -
    have "length (take (m + n) (grants h)) = m + n" using t by simp
    then show ?thesis by simp
  qed
  from e l show ?thesis by (simp add: granted_def append_eq_append_conv)
qed

lemma read_doubles_Some:
  "read_doubles h p n = Some ds \<Longrightarrow>
     \<exists>a bs. p = Ptr a \<and> a < length (cells h) \<and> cells h ! a = Some (Doubles bs) \<and>
            n \<le> length bs \<and> ds = take n bs"
  by (auto simp: read_doubles_def load_Some_iff
           split: ptr.splits option.splits block.splits if_splits)

lemma get_universe_Some:
  "get_universe h p = Some U \<Longrightarrow>
     \<exists>a. p = Ptr a \<and> a < length (cells h) \<and> cells h ! a = Some (Universe_Object U)"
  by (auto simp: get_universe_def load_Some_iff split: ptr.splits option.splits block.splits)

text \<open>Blocks are never changed by appending new blocks to the heap.\<close>

lemma load_extend:
  "load h a = Some b \<Longrightarrow> load (h\<lparr>cells := cells h @ xs, grants := gs\<rparr>) a = Some b"
  by (simp add: load_def nth_append split: if_splits)

lemma read_doubles_extend:
  "read_doubles h p n = Some ds \<Longrightarrow>
     read_doubles (h\<lparr>cells := cells h @ xs, grants := gs\<rparr>) p n = Some ds"
  by (auto simp: read_doubles_def load_def nth_append
           split: ptr.splits option.splits block.splits if_splits)

lemma get_universe_extend:
  "get_universe h p = Some U \<Longrightarrow>
     get_universe (h\<lparr>cells := cells h @ xs, grants := gs\<rparr>) p = Some U"
  by (auto simp: get_universe_def load_def nth_append
           split: ptr.splits option.splits block.splits if_splits)

lemma registry_extend:
  "registry h U = Some es \<Longrightarrow>
     registry (h\<lparr>cells := cells h @ xs, grants := gs\<rparr>) U = Some es"
  by (auto simp: registry_def load_def nth_append
           split: ptr.splits option.splits block.splits if_splits)

lemma registry_length: "registry h U = Some es \<Longrightarrow> int (length es) = sint (numEntities U)"
  by (auto simp: registry_def split: ptr.splits option.splits block.splits if_splits)

lemma valid_worldD:
  assumes "valid_world h u"
  shows "\<exists>ua U cs sp ma en es. u = Ptr ua \<and> get_universe h (Ptr ua) = Some U \<and>
           0 \<le> sint (numConstants U) \<and>
           constants_of h U = Some cs \<and> read_doubles h (spacetime U) 4 = Some sp \<and>
           read_doubles h (matter U) 1 = Some ma \<and> read_doubles h (energy U) 1 = Some en \<and>
           registry h U = Some es"
  using assms
  by (cases u) (auto simp: valid_world_def get_universe_def split: option.splits)


section \<open>Facts about double arithmetic\<close>

lemma round_even_of_int: "round_even (of_int m) = m"
  by (simp add: round_even_def)

text \<open>Integers below \<open>2^53\<close> are doubles: their conversion is exact.\<close>

lemma round_mag_small_int:
  assumes k: "0 < k" "k < 2 ^ 53"
  shows "round_mag False (of_int k) = Fin (of_int k)"
proof -
  define e where "e = bitlen k - 1"
  have b: "2 ^ nat (bitlen k - 1) \<le> k" "k < 2 ^ nat (bitlen k)"
    using bitlen_bounds [OF k(1)] by simp_all
  have bl: "0 < bitlen k"
    using k(1) bitlen_nonneg [of k] bitlen_eq_zero_iff [of k] by linarith
  have e0: "0 \<le> e" using bl by (simp add: e_def)
  have e52: "e \<le> 52"
  proof (rule ccontr)
    assume "\<not> e \<le> 52"
    then have "53 \<le> nat (bitlen k - 1)" by (simp add: e_def)
    then have "(2::int) ^ 53 \<le> 2 ^ nat (bitlen k - 1)" by (intro power_increasing) simp_all
    with b(1) k(2) show False by linarith
  qed
  have il: "ilog2 (of_int k) = e"
    using k(1) by (simp add: ilog2_def e_def)
  have u: "pow2 (e - 52) = 1 / 2 ^ nat (52 - e)"
    using e52 by (cases "e = 52") (simp_all add: pow2_def)
  have q: "real_of_int k / (1 / 2 ^ nat (52 - e)) = of_int (k * 2 ^ nat (52 - e))"
    by simp
  have r: "of_int (round_even (real_of_int k / pow2 (e - 52))) * pow2 (e - 52) = real_of_int k"
    unfolding u q round_even_of_int by simp
  have small: "\<not> pow2 1024 \<le> real_of_int k"
  proof -
    have "real_of_int k < 2 ^ 53" using k(2) by (metis of_int_less_numeral_power_cancel_iff)
    also have "\<dots> \<le> (2::real) ^ 1024" by (intro power_increasing) simp_all
    finally show ?thesis by (simp add: pow2_def)
  qed
  show ?thesis
    using k(1) e0 small
    by (simp add: round_mag_def il r Let_def mk_fin_def max_def)
qed

lemma int_to_double_small: "0 < k \<Longrightarrow> k < 2 ^ 53 \<Longrightarrow> int_to_double k = Fin (of_int k)"
  by (simp add: int_to_double_def real_to_double_def round_mag_small_int)

text \<open>The quotient \<open>1.0 / (i + 1)\<close> of the loop is the double nearest to \<open>1 / (i + 1)\<close>.\<close>

lemma reciprocal_rounded:
  assumes "0 < k" "k < 2 ^ 53"
  shows "ddiv (Fin 1) (int_to_double k) = real_to_double (1 / of_int k)"
  using assms
  by (simp add: int_to_double_small ddiv_def real_to_double_def is_nan_def is_inf_def
        is_zero_def)

text \<open>Signs and special values through the operations of the final formula.\<close>

lemma fmax_zero_cases: "fmax (Fin 0) x = PInf \<or> (\<exists>r\<ge>0. fmax (Fin 0) x = Fin r)"
  by (cases x) (auto simp: fmax_def dle_def is_nan_def is_inf_def)

lemma fmod_fabs_cases:
  "fmod (fabs s) (Fin 100) = NaN \<or> (\<exists>r\<ge>0. fmod (fabs s) (Fin 100) = Fin r)"
proof (cases s)
  case (Fin q)
  have "100 * real_of_int \<lfloor>\<bar>q\<bar> / 100\<rfloor> \<le> \<bar>q\<bar>"
    using of_int_floor_le [of "\<bar>q\<bar> / 100"] by simp
  then show ?thesis
    using Fin by (auto simp: fmod_def is_nan_def is_inf_def is_zero_def mk_fin_def)
qed (auto simp: fmod_def is_nan_def is_inf_def is_zero_def mk_fin_def)

lemma ddiv_by_zero:
  "\<not> sign_bit e \<Longrightarrow> ddiv e (Fin 0) = NaN \<or> ddiv e (Fin 0) = PInf"
  by (cases e) (auto simp: ddiv_def is_nan_def is_inf_def is_zero_def mk_inf_def)

lemma days_times_minus_infinity:
  "d = PInf \<or> (\<exists>r\<ge>0. d = Fin r) \<Longrightarrow>
     dmul d (dsub (Fin 1) PInf) = NInf \<or> dmul d (dsub (Fin 1) PInf) = NaN"
  by (auto simp: dmul_def dsub_def dadd_def is_nan_def is_inf_def is_zero_def mk_inf_def)

lemma influence_times_infinity:
  "p = NaN \<or> (\<exists>r\<ge>0. p = Fin r) \<Longrightarrow> dmul p PInf = PInf \<or> dmul p PInf = NaN"
  by (auto simp: dmul_def is_nan_def is_inf_def is_zero_def mk_inf_def)

lemma minus_infinity_sub:
  "A = NInf \<or> A = NaN \<Longrightarrow> B = PInf \<or> B = NaN \<Longrightarrow> dsub A B = NInf \<or> dsub A B = NaN"
  by (auto simp: dsub_def dadd_def is_nan_def is_inf_def)

lemma minus_infinity_add: "X = NInf \<or> X = NaN \<Longrightarrow> dadd X c = NInf \<or> dadd X c = NaN"
  by (cases c) (auto simp: dadd_def is_nan_def is_inf_def)

lemma fmax_zero_minus_infinity: "X = NInf \<or> X = NaN \<Longrightarrow> fmax (Fin 0) X = Fin 0"
  by (auto simp: fmax_def dle_def is_nan_def is_inf_def)

lemma nan_ratio:
  "fmax (Fin 0) (dadd (dsub (dmul d (dsub (Fin 1) NaN)) (dmul p NaN)) c) = Fin 0"
  by (simp add: fmax_def dle_def dadd_def dsub_def dmul_def is_nan_def)

lemma LONG_MAX_as_double: "int_to_double (sint LONG_MAX) = Fin (2 ^ 63)"
  by (simp add: LONG_MAX_def int_to_double_def real_to_double_def round_mag_def ilog2_def
        pow2_def round_even_def mk_fin_def bitlen_def compute_floorlog Let_def)

lemma clamp_zero: "double_to_long (fmin (int_to_double (sint LONG_MAX)) (Fin 0)) = Inr 0"
  by (simp add: LONG_MAX_as_double fmin_def dle_def double_to_long_def is_nan_def is_inf_def)

text \<open>Evaluation of the calculator on the sample world.\<close>

lemmas round_eval =
  real_to_double_def int_to_double_def round_mag_def ilog2_def pow2_def round_even_def
  mk_fin_def mk_inf_def bitlen_def compute_floorlog Let_def

lemmas double_eval =
  dmul_def ddiv_def dadd_def dsub_def dle_def fmax_def fmin_def fmod_def
  is_nan_def is_inf_def is_zero_def


section \<open>The sample worlds\<close>

lemma sample_world:
  assumes "physicalConstants U = Ptr 2" "numConstants U = 2" "matter U = Ptr 4"
    "energy U = Ptr 5" "spacetime U = Ptr 3" "consciousEntities U = NULL" "numEntities U = 0"
  shows "valid_world (sample_heap U) (Ptr 1)"
    and "get_universe (sample_heap U) (Ptr 1) = Some U"
    and "registry (sample_heap U) U = Some []"
  using assms
  by (simp_all add: valid_world_def get_universe_def constants_of_def read_doubles_def
        registry_def load_def sample_heap_def sample_cells_def elem_count_def byte_size_def)

lemma sample_granted: "n \<le> 16 \<Longrightarrow> granted n (sample_heap U)"
  by (simp add: granted_def sample_heap_def min_def)

lemma populated_world:
  assumes "physicalConstants U = Ptr 2" "numConstants U = 2" "matter U = Ptr 4"
    "energy U = Ptr 5" "spacetime U = Ptr 3" "consciousEntities U = Ptr 10"
    "numEntities U = 1"
  shows "valid_world (populated_heap U) (Ptr 1)"
    and "get_universe (populated_heap U) (Ptr 1) = Some U"
    and "registry (populated_heap U) U = Some [Ptr 6]"
  using assms
  by (simp_all add: valid_world_def get_universe_def constants_of_def read_doubles_def
        registry_def load_def populated_heap_def sample_cells_def elem_count_def
        byte_size_def)

lemma populated_granted: "n \<le> 11 \<Longrightarrow> granted n (populated_heap U)"
  by (simp add: granted_def populated_heap_def min_def)

text \<open>The populated sample is what the entry point's first append produces.\<close>

lemma populated_heap_reached:
  "createConsciousEntity (sample_heap sample_universe) (Ptr 0) (Ptr 1) (Some ''Human1'') =
     Inr (Ptr 6, populated_heap populated_universe)"
  by (simp add: createConsciousEntity_def malloc_def store_def free_def load_def strdup_def
        realloc_pointers_def INT_MAX_def Let_def sample_heap_def sample_cells_def
        sample_universe_def populated_heap_def populated_universe_def
        MAX_NAME_LENGTH_def strlen_def c_str_def elem_count_def
        byte_size_def replicate_Cons_numeral)


section \<open>The table of physical constants\<close>

lemma fill_rest_length: "length (fill_rest i n cs) = length cs"
proof (induction i n cs rule: fill_rest.induct)
  case (1 i n cs)
  show ?case
  proof (cases "i < n")
    case True
    with "1" show ?thesis by (subst fill_rest.simps) simp
  next
    case False
    then show ?thesis by (subst fill_rest.simps) simp
  qed
qed

lemma fill_rest_nth:
  "0 \<le> i \<Longrightarrow> n \<le> int (length cs) \<Longrightarrow> k < length cs \<Longrightarrow>
     fill_rest i n cs ! k =
       (if i \<le> int k \<and> int k < n then ddiv (Fin 1) (int_to_double (int k + 1)) else cs ! k)"
proof (induction i n cs rule: fill_rest.induct)
  case (1 i n cs)
  show ?case
  proof (cases "i < n")
    case True
    let ?cs = "cs[nat i := ddiv (Fin 1) (int_to_double (i + 1))]"
    have ih: "fill_rest (i + 1) n ?cs ! k =
        (if i + 1 \<le> int k \<and> int k < n then ddiv (Fin 1) (int_to_double (int k + 1))
         else ?cs ! k)"
      using "1.IH" [OF True] "1.prems" by simp
    have ii: "nat i < length cs" using True "1.prems" by linarith
    have step: "fill_rest i n cs = fill_rest (i + 1) n ?cs"
      using True by (subst fill_rest.simps) simp
    show ?thesis
    proof (cases "int k = i")
      case True
      then have "nat i = k" by simp
      then show ?thesis using ih ii True \<open>i < n\<close> unfolding step by auto
    next
      case False
      then have "nat i \<noteq> k" using "1.prems"(1) by linarith
      then show ?thesis using ih False unfolding step by auto
    qed
  next
    case False
    then show ?thesis by (subst fill_rest.simps) auto
  qed
qed

text \<open>
  Claim C6. For every \<open>n \<le> 0\<close> the generator returns the null pointer and leaves the
  heap untouched (no allocation). For every \<open>n > 0\<close>, when the allocator grants the
  request, it returns a block of exactly \<open>n\<close> doubles in which index \<open>i\<close> holds the
  constant the specification names for \<open>i\<close>: the four reference constants at 0 to 3 (as
  far as \<open>n\<close> reaches) and the double nearest to \<open>1 / (i + 1)\<close> at every \<open>i \<ge> 4\<close>.
\<close>

theorem divinePhysicalConstants_table:
  "(sint n \<le> 0 \<longrightarrow> divinePhysicalConstants h n = (NULL, h)) \<and>
   (0 < sint n \<and> granted 1 h \<longrightarrow>
      (\<exists>a h' cs. divinePhysicalConstants h n = (Ptr a, h') \<and>
          load h' a = Some (Doubles cs) \<and>
          length cs = nat (sint n) \<and>
          (\<forall>i < length cs. cs ! i = spec_constant i)))"
proof (intro conjI impI)
  assume "sint n \<le> 0"
  then show "divinePhysicalConstants h n = (NULL, h)"
    by (simp add: divinePhysicalConstants_def)
next
  assume a: "0 < sint n \<and> granted 1 h"
  then obtain rest where g: "grants h = True # rest" using granted_1 [of h] by auto
  have pos: "0 < sint n" using a by simp
  have ec: "elem_count n = nat (sint n)" using pos by (simp add: elem_count_nonneg)
  have lt: "sint n < 2 ^ 31" using sint_lt [of n] by simp
  define c0 where "c0 = (replicate (nat (sint n)) (Fin 0))[0 := real_to_double 299792458.0]"
  define c1 where "c1 = (if 1 < sint n then c0[1 := real_to_double (6.62607015 / 10 ^ 34)] else c0)"
  define c2 where "c2 = (if 2 < sint n then c1[2 := real_to_double (6.67430 / 10 ^ 11)] else c1)"
  define c3 where "c3 = (if 3 < sint n then c2[3 := real_to_double (8.8541878128 / 10 ^ 12)] else c2)"
  define cs where "cs = fill_rest 4 (sint n) c3"
  have len3: "length c3 = nat (sint n)" by (simp add: c3_def c2_def c1_def c0_def)
  have len: "length cs = nat (sint n)" by (simp add: cs_def fill_rest_length len3)
  have run: "divinePhysicalConstants h n =
      (Ptr (length (cells h)),
       store (h\<lparr>cells := cells h @ [Some Fresh], grants := rest\<rparr>) (length (cells h))
         (Doubles cs))"
    using pos g
    by (simp add: divinePhysicalConstants_def malloc_def ec Let_def
          cs_def c3_def c2_def c1_def c0_def)
  have ld: "load (store (h\<lparr>cells := cells h @ [Some Fresh], grants := rest\<rparr>)
                 (length (cells h)) (Doubles cs)) (length (cells h)) = Some (Doubles cs)"
    by (simp add: load_def store_def)
  have vals: "cs ! i = spec_constant i" if i: "i < length cs" for i
  proof -
    have i': "i < length c3" "int i < sint n" using i len len3 by simp_all
    have nth: "cs ! i =
        (if 4 \<le> int i \<and> int i < sint n then ddiv (Fin 1) (int_to_double (int i + 1))
         else c3 ! i)"
      unfolding cs_def using i' len3 by (intro fill_rest_nth) simp_all
    show ?thesis
    proof (cases "4 \<le> i")
      case True
      have "ddiv (Fin 1) (int_to_double (int i + 1)) = real_to_double (1 / of_int (int i + 1))"
        using i'(2) lt by (intro reciprocal_rounded) simp_all
      then show ?thesis using True nth i'(2) by (simp add: spec_constant_def add.commute)
    next
      case False
      then consider "i = 0" | "i = 1" | "i = 2" | "i = 3" by linarith
      then show ?thesis
      proof cases
        case 1
        then show ?thesis using nth i'
          by (simp add: spec_constant_def c3_def c2_def c1_def c0_def)
      next
        case 2
        then show ?thesis using nth i'
          by (simp add: spec_constant_def c3_def c2_def c1_def c0_def)
      next
        case 3
        then show ?thesis using nth i'
          by (simp add: spec_constant_def c3_def c2_def c1_def c0_def)
      next
        case 4
        then show ?thesis using nth i'
          by (simp add: spec_constant_def c3_def c2_def c1_def c0_def)
      qed
    qed
  qed
  show "\<exists>a h' cs. divinePhysicalConstants h n = (Ptr a, h') \<and>
          load h' a = Some (Doubles cs) \<and>
          length cs = nat (sint n) \<and>
          (\<forall>i < length cs. cs ! i = spec_constant i)"
    using run ld len vals by blast
qed

theorem divinePhysicalConstants_table_witness:
  "divinePhysicalConstants (sample_heap sample_universe) 0 =
     (NULL, sample_heap sample_universe) \<and>
   0 < sint (6 :: c_int) \<and> granted 1 (sample_heap sample_universe) \<and>
   (\<exists>a h' cs. divinePhysicalConstants (sample_heap sample_universe) 6 = (Ptr a, h') \<and>
       load h' a = Some (Doubles cs) \<and>
       length cs = 6 \<and>
       (\<forall>i < length cs. cs ! i = spec_constant i))"
proof -
  have g: "granted 1 (sample_heap sample_universe)" by (simp add: sample_granted)
  from divinePhysicalConstants_table [of 0 "sample_heap sample_universe"]
  have z: "divinePhysicalConstants (sample_heap sample_universe) 0 =
     (NULL, sample_heap sample_universe)" by simp
  from divinePhysicalConstants_table [of 6 "sample_heap sample_universe"] g
  have "\<exists>a h' cs. divinePhysicalConstants (sample_heap sample_universe) 6 = (Ptr a, h') \<and>
       load h' a = Some (Doubles cs) \<and>
       length cs = 6 \<and>
       (\<forall>i < length cs. cs ! i = spec_constant i)" by simp
  with z g show ?thesis by simp
qed


section \<open>Creation of entities\<close>

text \<open>
  Claim C10. \<open>createConsciousEntity\<close> requires a non-null creator: with a null creator
  handle it returns no entity and leaves the heap, and with it the registry of the world
  state, exactly as it was, whatever the world state and the name are.
\<close>

theorem createConsciousEntity_null_creator:
  "createConsciousEntity h NULL universe name_arg = Inr (NULL, h)"
  by (simp add: createConsciousEntity_def)

theorem createConsciousEntity_null_creator_witness:
  "createConsciousEntity (sample_heap sample_universe) NULL (Ptr 1) (Some ''Human1'') =
     Inr (NULL, sample_heap sample_universe)"
  using createConsciousEntity_null_creator
          [of "sample_heap sample_universe" "Ptr 1" "Some ''Human1''"]
  by simp

text \<open>
  A successful append: with five allocations granted, a readable registry, an entity
  count below \<open>INT_MAX\<close> and a name shorter than the bound, \<open>createConsciousEntity\<close>
  returns the first new block and leaves the heap as \<open>created\<close> describes.
\<close>

lemma create_success_case:
  assumes g: "granted 5 h"
    and u: "get_universe h (Ptr ua) = Some U"
    and r: "registry h U = Some es"
    and m: "numEntities U \<noteq> INT_MAX"
    and nm: "strlen nm < MAX_NAME_LENGTH"
  shows "case createConsciousEntity h (Ptr g) (Ptr ua) (Some nm) of
           Inr (Ptr e, h') \<Rightarrow> e = length (cells h) \<and> created h ua U es nm h'
         | _ \<Rightarrow> False"
proof -
  obtain rest where g': "grants h = True # True # True # True # True # rest"
    using granted_grants [OF g] by blast
  have ua: "ua < length (cells h)" "cells h ! ua = Some (Universe_Object U)"
    using u by (auto simp: get_universe_def load_Some_iff split: option.splits block.splits)
  show ?thesis
  proof (cases "consciousEntities U")
    case NULL
    then have z: "numEntities U = 0" "es = []"
      using r by (auto simp: registry_def split: if_splits)
    have ec: "elem_count 1 = 1" by (simp add: elem_count_def byte_size_def)
    show ?thesis
      using g' ua NULL z nm
      by (simp add: createConsciousEntity_def malloc_def store_def free_def load_def strdup_def
          realloc_pointers_def INT_MAX_def ec Let_def nth_append list_update_append
          created_def get_entity_def get_universe_def registry_def)
  next
    case (Ptr ra)
    then obtain ps where ra: "load h ra = Some (Pointers ps)"
       and n: "0 \<le> sint (numEntities U)" "nat (sint (numEntities U)) \<le> length ps"
       and es: "es = take (nat (sint (numEntities U))) ps"
      using r by (auto simp: registry_def split: option.splits block.splits if_splits)
    have ra': "ra < length (cells h)" "cells h ! ra = Some (Pointers ps)"
      using ra by (simp_all add: load_Some_iff)
    have ne: "ra \<noteq> ua" using ua ra' by auto
    have s: "sint (numEntities U + 1) = sint (numEntities U) + 1" using m by (rule sint_succ)
    have ec: "elem_count (numEntities U + 1) = Suc (nat (sint (numEntities U)))"
      using n s by (simp add: elem_count_nonneg nat_add_distrib)
    show ?thesis
      using g' ua ra' ne n m nm Ptr es s
      by (simp add: createConsciousEntity_def malloc_def store_def free_def load_def strdup_def
          realloc_pointers_def ec Let_def nth_append list_update_append
          created_def get_entity_def get_universe_def registry_def nat_add_distrib
          take_Suc_update)
  qed
qed

text \<open>
  Claim C8, as the code has it. \<open>createConsciousEntity\<close> returns no entity whenever the
  name is null or its length is 256 or more (a 300-character name, for example); in these
  cases it returns before any allocation, so the heap, and with it the length and the
  contents of the registry, is exactly as before. The code does not reject an empty name:
  its only check on the characters is the upper bound.
\<close>

theorem createConsciousEntity_rejects_name:
  assumes "name_arg = None \<or> (\<exists>nm. name_arg = Some nm \<and> MAX_NAME_LENGTH \<le> strlen nm)"
  shows "createConsciousEntity h creator universe name_arg = Inr (NULL, h)"
  using assms by (auto simp: createConsciousEntity_def split: ptr.splits option.splits)

theorem createConsciousEntity_rejects_name_witness:
  "MAX_NAME_LENGTH \<le> strlen (replicate 300 CHR ''a'') \<and>
   createConsciousEntity (sample_heap sample_universe) (Ptr 0) (Ptr 1)
       (Some (replicate 300 CHR ''a'')) =
     Inr (NULL, sample_heap sample_universe)"
proof -
  have long: "MAX_NAME_LENGTH \<le> strlen (replicate 300 CHR ''a'')"
    by (simp add: strlen_replicate MAX_NAME_LENGTH_def)
  then have "Some (replicate 300 CHR ''a'') = None \<or>
      (\<exists>nm. Some (replicate 300 CHR ''a'') = Some nm \<and> MAX_NAME_LENGTH \<le> strlen nm)"
    by simp
  from createConsciousEntity_rejects_name [OF this] long show ?thesis by simp
qed

text \<open>
  The claim as stated fails for the empty name: in the sample world the call with the
  name \<open>""\<close> returns the new entity at address 6, and the registry of the universe has
  grown to one element.
\<close>

theorem createConsciousEntity_accepts_empty_name:
  "createConsciousEntity (sample_heap sample_universe) (Ptr 0) (Ptr 1) (Some '''') =
     Inr (Ptr 6,
          \<lparr>cells =
             sample_cells (sample_universe\<lparr>consciousEntities := Ptr 10, numEntities := 1\<rparr>) @
             [Some (Entity_Object
                      \<lparr>consciousness = Ptr 7, freeWill = Ptr 8, name = Ptr 9,
                       makeChoice = Fn_entityMakeChoice, formPrayer = Fn_formPrayer,
                       uniqueId = 1\<rparr>),
              Some (Doubles [Fin 1]), Some (Doubles [Fin 1]), Some (Chars ''''),
              Some (Pointers [Ptr 6])],
           grants = replicate 11 True\<rparr>)"
  by (simp add: createConsciousEntity_def malloc_def store_def free_def load_def strdup_def
        realloc_pointers_def INT_MAX_def Let_def sample_heap_def sample_cells_def
        sample_universe_def MAX_NAME_LENGTH_def strlen_def c_str_def elem_count_def
        byte_size_def replicate_Cons_numeral)

text \<open>
  What a call of \<open>createConsciousEntity\<close> that returns an entity implies: all three
  arguments were given, the name was short enough, five allocations were granted, and
  the universe was readable with fewer than \<open>INT_MAX\<close> entities.
\<close>

lemma create_returns_entity_args:
  assumes "createConsciousEntity h c u name_arg = Inr (Ptr e, h')"
  shows "\<exists>g ua nm. c = Ptr g \<and> u = Ptr ua \<and> name_arg = Some nm \<and>
           strlen nm < MAX_NAME_LENGTH \<and> granted 5 h"
  using assms
  by (auto simp: createConsciousEntity_def malloc_def strdup_def realloc_pointers_def
        granted_def store_def free_def Let_def eval_nat_numeral
        split: list.splits if_splits ptr.splits option.splits block.splits sum.splits
               prod.splits)

lemma create_returns_entity:
  assumes "createConsciousEntity h c u name_arg = Inr (Ptr e, h')"
  shows "\<exists>g ua nm U. c = Ptr g \<and> u = Ptr ua \<and> name_arg = Some nm \<and>
           strlen nm < MAX_NAME_LENGTH \<and> granted 5 h \<and>
           get_universe h (Ptr ua) = Some U \<and> numEntities U \<noteq> INT_MAX"
proof -
  from create_returns_entity_args [OF assms] obtain g ua nm where
      args: "c = Ptr g" "u = Ptr ua" "name_arg = Some nm"
      and len: "strlen nm < MAX_NAME_LENGTH" and g5: "granted 5 h"
    by blast
  obtain rest where g': "grants h = True # True # True # True # True # rest"
    using granted_grants [OF g5] by blast
  let ?h4 = "h\<lparr>cells := cells h @ [Some Fresh, Some (Doubles [Fin 1]), Some (Doubles [Fin 1]),
                                    Some (Chars (c_str nm))],
               grants := [True] @ rest\<rparr>"
  have "\<exists>U. load ?h4 ua = Some (Universe_Object U) \<and> numEntities U \<noteq> INT_MAX"
    using assms args len g'
    by (auto simp: createConsciousEntity_def malloc_def strdup_def store_def load_def
          list_update_append nth_append Let_def
          split: option.splits block.splits if_splits)
  then obtain U where U: "load ?h4 ua = Some (Universe_Object U)" "numEntities U \<noteq> INT_MAX"
    by blast
  have "ua < length (cells h)"
  proof (rule ccontr)
    assume "\<not> ua < length (cells h)"
    then obtain k where "ua = length (cells h) + k" by (metis le_Suc_ex not_le_imp_less)
    then show False using U(1)
      by (cases k; cases "k - 1"; cases "k - 2"; cases "k - 3")
         (auto simp: load_def nth_append nth_Cons' split: if_splits)
  qed
  then have "get_universe h (Ptr ua) = Some U"
    using U(1) by (simp add: get_universe_def load_def nth_append)
  then show ?thesis using args len g5 U(2) by blast
qed

lemma create_step:
  assumes run: "createConsciousEntity h g (Ptr ua) (Some nm) = Inr (Ptr e, h1)"
    and U: "get_universe h (Ptr ua) = Some U"
    and R: "registry h U = Some es0"
  shows "e = length (cells h) \<and> created h ua U es0 nm h1 \<and> numEntities U \<noteq> INT_MAX"
proof -
  from create_returns_entity [OF run] U obtain g' where
      g: "g = Ptr g'" and len: "strlen nm < MAX_NAME_LENGTH" and g5: "granted 5 h"
      and ne: "numEntities U \<noteq> INT_MAX"
    by auto
  from create_success_case [OF g5 U R ne len, of g'] run
  show ?thesis using ne by (simp add: g)
qed

text \<open>A registry numbered \<open>1..j\<close> is numbered \<open>1..j+1\<close> after an append.\<close>

lemma created_ids:
  assumes C: "created h ua U es0 nm h1"
    and U: "get_universe h (Ptr ua) = Some U"
    and R: "registry h U = Some es0"
    and ne: "numEntities U \<noteq> INT_MAX"
    and I: "map (entity_id h) es0 = map (\<lambda>i. Some (int i)) [1..<Suc (length es0)]"
  shows "map (entity_id h1) (es0 @ [Ptr (length (cells h))]) =
         map (\<lambda>i. Some (int i)) [1..<Suc (Suc (length es0))]"
proof -
  let ?L = "length (cells h)"
  have frame: "\<forall>a. a < ?L \<and> a \<noteq> ua \<and> consciousEntities U \<noteq> Ptr a \<longrightarrow> load h1 a = load h a"
    and new: "get_entity h1 (Ptr ?L) =
           Some \<lparr>consciousness = Ptr (?L + 1), freeWill = Ptr (?L + 2), name = Ptr (?L + 3),
                 makeChoice = Fn_entityMakeChoice, formPrayer = Fn_formPrayer,
                 uniqueId = numEntities U + 1\<rparr>"
    using C by (simp_all add: created_def Let_def)
  have uu: "load h ua = Some (Universe_Object U)"
    using get_universe_Some [OF U] by (simp add: load_Some_iff)
  have id_new: "entity_id h1 (Ptr ?L) = Some (int (Suc (length es0)))"
    using new sint_succ [OF ne] registry_length [OF R] by (simp add: entity_id_def)
  have id_old: "entity_id h1 p = entity_id h p" if p: "p \<in> set es0" for p
  proof -
    from p obtain k where k: "k < length es0" "es0 ! k = p" by (auto simp: in_set_conv_nth)
    have "map (entity_id h) es0 ! k = map (\<lambda>i. Some (int i)) [1..<Suc (length es0)] ! k"
      using I by simp
    then have "entity_id h p \<noteq> None" using k by (simp del: upt_Suc)
    then obtain a E where a: "p = Ptr a" "load h a = Some (Entity_Object E)"
      by (auto simp: entity_id_def get_entity_def split: ptr.splits option.splits block.splits)
    have "a < ?L" using a(2) by (simp add: load_Some_iff)
    moreover have "a \<noteq> ua" using a(2) uu by auto
    moreover have "consciousEntities U \<noteq> Ptr a"
      using a(2) R by (auto simp: registry_def split: option.splits block.splits if_splits)
    ultimately have "load h1 a = load h a" using frame by blast
    then show ?thesis by (simp add: a(1) entity_id_def get_entity_def)
  qed
  have "map (entity_id h1) es0 = map (entity_id h) es0"
    using id_old by (intro map_cong) simp_all
  then show ?thesis using I id_new by simp
qed

lemma create_entities_ids:
  "create_entities h g (Ptr ua) names = Inr (es, h') \<Longrightarrow> NULL \<notin> set es \<Longrightarrow>
   get_universe h (Ptr ua) = Some U \<Longrightarrow> registry h U = Some es0 \<Longrightarrow>
   map (entity_id h) es0 = map (\<lambda>i. Some (int i)) [1..<Suc (length es0)] \<Longrightarrow>
   length es = length names \<and>
   (\<exists>U'. get_universe h' (Ptr ua) = Some U' \<and> registry h' U' = Some (es0 @ es)) \<and>
   map (entity_id h') (es0 @ es) =
     map (\<lambda>i. Some (int i)) [1..<Suc (length es0 + length names)] \<and>
   grants h' = drop (5 * length names) (grants h)"
proof (induction names arbitrary: h U es0 es)
  case Nil
  then show ?case by simp
next
  case (Cons nm nms)
  from Cons.prems(1) obtain e h1 es1 where
      one: "createConsciousEntity h g (Ptr ua) (Some nm) = Inr (e, h1)"
      and rest: "create_entities h1 g (Ptr ua) nms = Inr (es1, h')"
      and es: "es = e # es1"
    by (auto split: sum.splits prod.splits)
  from es Cons.prems(2) obtain ea where e: "e = Ptr ea" and n1: "NULL \<notin> set es1"
    by (cases e) auto
  from create_step [OF one [unfolded e] Cons.prems(3,4)]
  have ea: "ea = length (cells h)" and C: "created h ua U es0 nm h1"
    and ne: "numEntities U \<noteq> INT_MAX"
    by simp_all
  let ?U1 = "U\<lparr>consciousEntities := Ptr (length (cells h) + 4),
                 numEntities := numEntities U + 1\<rparr>"
  have U1: "get_universe h1 (Ptr ua) = Some ?U1"
    and R1: "registry h1 ?U1 = Some (es0 @ [Ptr (length (cells h))])"
    and G1: "grants h1 = drop 5 (grants h)"
    using C by (simp_all add: created_def Let_def)
  have I1: "map (entity_id h1) (es0 @ [Ptr (length (cells h))]) =
            map (\<lambda>i. Some (int i)) [1..<Suc (length (es0 @ [Ptr (length (cells h))]))]"
    using created_ids [OF C Cons.prems(3,4) ne Cons.prems(5)] by simp
  from Cons.IH [OF rest n1 U1 R1 I1]
  show ?case by (simp add: es e ea G1 add.commute)
qed

text \<open>
  Appends succeed as long as allocations are granted, the names are short enough and
  the count stays within \<open>int\<close>.
\<close>

lemma create_entities_total:
  "get_universe h (Ptr ua) = Some U \<Longrightarrow> registry h U = Some es0 \<Longrightarrow>
   granted (5 * length names) h \<Longrightarrow> \<forall>nm \<in> set names. strlen nm < MAX_NAME_LENGTH \<Longrightarrow>
   int (length es0) + int (length names) \<le> 2147483647 \<Longrightarrow>
   \<exists>es h'. create_entities h (Ptr g) (Ptr ua) names = Inr (es, h') \<and> NULL \<notin> set es"
proof (induction names arbitrary: h U es0)
  case Nil
  then show ?case by simp
next
  case (Cons nm nms)
  have "granted (5 + 5 * length nms) h" using Cons.prems(3) by simp
  from granted_split [OF this]
  have g5: "granted 5 h" and gr: "take (5 * length nms) (drop 5 (grants h)) = replicate (5 * length nms) True"
    by simp_all
  have len: "strlen nm < MAX_NAME_LENGTH" using Cons.prems(4) by simp
  have ne: "numEntities U \<noteq> INT_MAX"
  proof
    assume "numEntities U = INT_MAX"
    then have "sint (numEntities U) = 2147483647" by (simp add: sint_INT_MAX)
    with registry_length [OF Cons.prems(2)] Cons.prems(5) show False by simp
  qed
  from create_success_case [OF g5 Cons.prems(1,2) ne len, of g]
  obtain h1 where one: "createConsciousEntity h (Ptr g) (Ptr ua) (Some nm) =
                          Inr (Ptr (length (cells h)), h1)"
      and C: "created h ua U es0 nm h1"
    by (auto split: sum.splits prod.splits ptr.splits)
  let ?U1 = "U\<lparr>consciousEntities := Ptr (length (cells h) + 4),
                 numEntities := numEntities U + 1\<rparr>"
  have U1: "get_universe h1 (Ptr ua) = Some ?U1"
    and R1: "registry h1 ?U1 = Some (es0 @ [Ptr (length (cells h))])"
    and G1: "grants h1 = drop 5 (grants h)"
    using C by (simp_all add: created_def Let_def)
  have g1: "granted (5 * length nms) h1" using gr by (simp add: granted_def G1)
  have b1: "int (length (es0 @ [Ptr (length (cells h))])) + int (length nms) \<le> 2147483647"
    using Cons.prems(5) by simp
  from Cons.IH [OF U1 R1 g1 _ b1] Cons.prems(4)
  obtain es1 h' where "create_entities h1 (Ptr g) (Ptr ua) nms = Inr (es1, h')" "NULL \<notin> set es1"
    by auto
  then show ?case using one by simp
qed

text \<open>
  Claim C9. Take a world state whose registry holds \<open>j\<close> entities numbered \<open>1..j\<close> (a
  freshly constructed world state has the empty registry, \<open>j = 0\<close>). Whenever \<open>k\<close>
  entities are appended one after the other (every call returns an entity), the
  registry is the old one followed by the new entities in append order and its
  identifiers are \<open>1..j+k\<close>: each appended entity receives the count of entities already
  in the registry plus 1, so the identifiers of one world state increase and are
  unique. Such a run exists whenever the creator is not null, the allocator grants the
  five requests of each append, the names are shorter than the bound and the count
  stays within \<open>int\<close> (\<open>j + k \<le> INT_MAX\<close>).
\<close>

theorem create_entities_sequential_ids:
  assumes U: "get_universe h (Ptr ua) = Some U" and R: "registry h U = Some es0"
    and I: "map (entity_id h) es0 = map (\<lambda>i. Some (int i)) [1..<Suc (length es0)]"
  shows "(\<forall>es h'. create_entities h g (Ptr ua) names = Inr (es, h') \<and> NULL \<notin> set es \<longrightarrow>
            length es = length names \<and>
            (\<exists>U'. get_universe h' (Ptr ua) = Some U' \<and> registry h' U' = Some (es0 @ es)) \<and>
            map (entity_id h') (es0 @ es) =
              map (\<lambda>i. Some (int i)) [1..<Suc (length es0 + length names)]) \<and>
         (g \<noteq> NULL \<and> granted (5 * length names) h \<and>
          (\<forall>nm \<in> set names. strlen nm < MAX_NAME_LENGTH) \<and>
          int (length es0) + int (length names) \<le> 2147483647 \<longrightarrow>
            (\<exists>es h'. create_entities h g (Ptr ua) names = Inr (es, h') \<and> NULL \<notin> set es))"
proof (intro conjI allI impI)
  fix es h'
  assume run: "create_entities h g (Ptr ua) names = Inr (es, h') \<and> NULL \<notin> set es"
  then have r: "create_entities h g (Ptr ua) names = Inr (es, h')" and n: "NULL \<notin> set es"
    by simp_all
  from create_entities_ids [OF r n U R I]
  show "length es = length names"
    and "\<exists>U'. get_universe h' (Ptr ua) = Some U' \<and> registry h' U' = Some (es0 @ es)"
    and "map (entity_id h') (es0 @ es) =
           map (\<lambda>i. Some (int i)) [1..<Suc (length es0 + length names)]"
    by simp_all
next
  assume a: "g \<noteq> NULL \<and> granted (5 * length names) h \<and>
          (\<forall>nm \<in> set names. strlen nm < MAX_NAME_LENGTH) \<and>
          int (length es0) + int (length names) \<le> 2147483647"
  then obtain g' where g: "g = Ptr g'" by (cases g) auto
  from a create_entities_total [OF U R, of names g']
  show "\<exists>es h'. create_entities h g (Ptr ua) names = Inr (es, h') \<and> NULL \<notin> set es"
    unfolding g by blast
qed

theorem create_entities_sequential_ids_witness:
  "get_universe (sample_heap sample_universe) (Ptr 1) = Some sample_universe \<and>
   registry (sample_heap sample_universe) sample_universe = Some [] \<and>
   granted 10 (sample_heap sample_universe) \<and>
   strlen ''Human1'' < MAX_NAME_LENGTH \<and> strlen ''Human2'' < MAX_NAME_LENGTH \<and>
   (\<exists>es h'. create_entities (sample_heap sample_universe) (Ptr 0) (Ptr 1)
               [''Human1'', ''Human2''] = Inr (es, h') \<and>
       NULL \<notin> set es \<and> length es = 2 \<and>
       (\<exists>U'. get_universe h' (Ptr 1) = Some U' \<and> registry h' U' = Some es) \<and>
       map (entity_id h') es = [Some 1, Some 2])"
proof -
  let ?h = "sample_heap sample_universe"
  have U: "get_universe ?h (Ptr 1) = Some sample_universe"
    and R: "registry ?h sample_universe = Some []"
    by (rule sample_world; simp add: sample_universe_def)+
  have I: "map (entity_id ?h) [] = map (\<lambda>i. Some (int i)) [1..<Suc (length ([] :: ptr list))]"
    by simp
  have G: "granted 10 ?h" by (simp add: sample_granted)
  have N: "strlen ''Human1'' < MAX_NAME_LENGTH" "strlen ''Human2'' < MAX_NAME_LENGTH"
    by (simp_all add: strlen_def c_str_def MAX_NAME_LENGTH_def)
  note T = create_entities_sequential_ids [OF U R I, of "Ptr 0" "[''Human1'', ''Human2'']"]
  from T G N obtain es h' where
      run: "create_entities ?h (Ptr 0) (Ptr 1) [''Human1'', ''Human2''] = Inr (es, h')"
      and n: "NULL \<notin> set es"
    by auto
  from T run n have a: "length es = length [''Human1'', ''Human2'']"
    and b: "\<exists>U'. get_universe h' (Ptr 1) = Some U' \<and> registry h' U' = Some ([] @ es)"
    and c: "map (entity_id h') ([] @ es) =
            map (\<lambda>i. Some (int i)) [1..<Suc (length ([] :: ptr list) +
                                              length [''Human1'', ''Human2''])]"
    by blast+
  have a': "length es = 2" using a by simp
  have b': "\<exists>U'. get_universe h' (Ptr 1) = Some U' \<and> registry h' U' = Some es"
    using b by simp
  have c': "map (entity_id h') es = [Some 1, Some 2]" using c by (simp add: upt_rec)
  have "\<exists>es h'. create_entities ?h (Ptr 0) (Ptr 1) [''Human1'', ''Human2''] = Inr (es, h') \<and>
       NULL \<notin> set es \<and> length es = 2 \<and>
       (\<exists>U'. get_universe h' (Ptr 1) = Some U' \<and> registry h' U' = Some es) \<and>
       map (entity_id h') es = [Some 1, Some 2]"
    by (rule exI [of _ es], rule exI [of _ h']) (intro conjI run n a' b' c')
  then show ?thesis by (intro conjI U R G N)
qed

text \<open>
  At \<open>INT_MAX\<close> entities the next identifier \<open>numEntities + 1\<close> overflows \<open>int\<close>: the
  append is undefined.
\<close>

lemma create_overflow:
  assumes g: "granted 4 h" and U: "get_universe h (Ptr ua) = Some U"
    and m: "numEntities U = INT_MAX" and nm: "strlen nm < MAX_NAME_LENGTH"
  shows "createConsciousEntity h (Ptr g) (Ptr ua) (Some nm) = Inl Undefined"
proof -
  from g have t: "take 4 (grants h) = [True, True, True, True]"
    by (simp add: granted_def eval_nat_numeral)
  have "grants h = take 4 (grants h) @ drop 4 (grants h)" by simp
  then obtain rest where g': "grants h = True # True # True # True # rest"
    using t by (metis append_Cons append_Nil)
  have ua: "ua < length (cells h)" "cells h ! ua = Some (Universe_Object U)"
    using get_universe_Some [OF U] by auto
  show ?thesis
    using g' ua m nm
    by (simp add: createConsciousEntity_def malloc_def store_def load_def strdup_def
          nth_append list_update_append)
qed

lemma create_entities_append:
  "create_entities h g u (xs @ ys) =
     (case create_entities h g u xs of
        Inl f \<Rightarrow> Inl f
      | Inr (es, h1) \<Rightarrow>
          (case create_entities h1 g u ys of
             Inl f \<Rightarrow> Inl f
           | Inr (es', h2) \<Rightarrow> Inr (es @ es', h2)))"
  by (induction xs arbitrary: h) (auto split: sum.splits prod.splits)

text \<open>
  The claim as stated fails at \<open>k = 2^31\<close>: from the fresh sample world, with every
  allocation granted, the first \<open>2^31 - 1\<close> appends bring the count to \<open>INT_MAX\<close>, and
  the next one has no identifier to give.
\<close>

theorem create_entities_overflow_at_INT_MAX:
  "create_entities ((sample_heap sample_universe)\<lparr>grants := replicate 10737418240 True\<rparr>)
     (Ptr 0) (Ptr 1) (replicate 2147483648 ''x'') = Inl Undefined"
proof -
  let ?h = "(sample_heap sample_universe)\<lparr>grants := replicate 10737418240 True\<rparr>"
  let ?xs = "replicate 2147483647 ''x''"
  have U: "get_universe ?h (Ptr 1) = Some sample_universe"
    and R: "registry ?h sample_universe = Some []"
    by (simp_all add: get_universe_def registry_def load_def sample_heap_def sample_cells_def
          sample_universe_def)
  have I: "map (entity_id ?h) [] = map (\<lambda>i. Some (int i)) [1..<Suc (length ([] :: ptr list))]"
    by simp
  have G: "granted (5 * length ?xs) ?h" by (simp add: granted_def)
  have N: "\<forall>nm \<in> set ?xs. strlen nm < MAX_NAME_LENGTH"
    by (simp add: strlen_def c_str_def MAX_NAME_LENGTH_def)
  have B: "int (length ([] :: ptr list)) + int (length ?xs) \<le> 2147483647" by simp
  from create_entities_total [OF U R G N B, of 0] obtain es h1 where
      run: "create_entities ?h (Ptr 0) (Ptr 1) ?xs = Inr (es, h1)" and n: "NULL \<notin> set es"
    by blast
  from create_entities_ids [OF run n U R I] obtain U1 where
      len: "length es = 2147483647"
      and U1: "get_universe h1 (Ptr 1) = Some U1" and R1: "registry h1 U1 = Some es"
      and G1: "grants h1 = drop (5 * length ?xs) (grants ?h)"
    by auto
  have "sint (numEntities U1) = 2147483647" using registry_length [OF R1] len by simp
  then have "word_of_int (sint (numEntities U1)) = (word_of_int 2147483647 :: c_int)" by simp
  then have m: "numEntities U1 = INT_MAX" by (simp add: INT_MAX_def)
  have g4: "granted 4 h1" by (simp add: granted_def G1)
  have x: "strlen ''x'' < MAX_NAME_LENGTH" by (simp add: strlen_def c_str_def MAX_NAME_LENGTH_def)
  have last: "createConsciousEntity h1 (Ptr 0) (Ptr 1) (Some ''x'') = Inl Undefined"
    by (rule create_overflow [OF g4 U1 m x])
  have split: "replicate 2147483648 ''x'' = ?xs @ [''x'']"
    using replicate_add [of 2147483647 1 "''x''"] by simp
  show ?thesis
    by (simp only: split create_entities_append run last create_entities.simps
          sum.case prod.case)
qed


section \<open>The transition engine\<close>

text \<open>
  With five allocations granted and a readable source, \<open>divineMiracle\<close> appends five
  blocks to the heap: the new universe and copies of the constants, the space-time
  coordinates, the matter and the energy of the source.
\<close>

lemma divineMiracle_success:
  assumes g: "granted 5 h"
    and u: "get_universe h (Ptr ua) = Some U"
    and c: "constants_of h U = Some cs"
    and s: "read_doubles h (spacetime U) 4 = Some sp"
    and m: "read_doubles h (matter U) 1 = Some ma"
    and e: "read_doubles h (energy U) 1 = Some en"
  shows "divineMiracle h (Ptr ua) t =
     Inr (Ptr (length (cells h)),
          h\<lparr>cells := cells h @
              [Some (Universe_Object
                  \<lparr>physicalConstants = Ptr (length (cells h) + 1),
                   numConstants = numConstants U,
                   matter = Ptr (length (cells h) + 3), energy = Ptr (length (cells h) + 4),
                   spacetime = Ptr (length (cells h) + 2),
                   consciousEntities = NULL, numEntities = 0,
                   naturalLaws_evolve = naturalLaws_evolve U,
                   creationTime = creationTime U,
                   totalLifespanDays = totalLifespanDays U,
                   entropyLevel = dmul (entropyLevel U) (real_to_double 0.9),
                   maxEntropy = maxEntropy U\<rparr>),
               Some (Doubles cs), Some (Doubles sp), Some (Doubles ma), Some (Doubles en)],
            grants := drop 5 (grants h)\<rparr>)"
proof -
  obtain rest where g': "grants h = True # True # True # True # True # rest"
    using granted_grants [OF g] by blast
  have ua: "ua < length (cells h)" "cells h ! ua = Some (Universe_Object U)"
    using get_universe_Some [OF u] by auto
  from c obtain a1 b1 where c': "physicalConstants U = Ptr a1" "a1 < length (cells h)"
      "cells h ! a1 = Some (Doubles b1)" "elem_count (numConstants U) \<le> length b1"
      "cs = take (elem_count (numConstants U)) b1"
    unfolding constants_of_def by (blast dest: read_doubles_Some)
  from s obtain a2 b2 where s': "spacetime U = Ptr a2" "a2 < length (cells h)"
      "cells h ! a2 = Some (Doubles b2)" "4 \<le> length b2" "sp = take 4 b2"
    by (blast dest: read_doubles_Some)
  from m obtain a3 b3 where m': "matter U = Ptr a3" "a3 < length (cells h)"
      "cells h ! a3 = Some (Doubles b3)" "1 \<le> length b3" "ma = take 1 b3"
    by (blast dest: read_doubles_Some)
  from e obtain a4 b4 where e': "energy U = Ptr a4" "a4 < length (cells h)"
      "cells h ! a4 = Some (Doubles b4)" "1 \<le> length b4" "en = take 1 b4"
    by (blast dest: read_doubles_Some)
  show ?thesis
    using g' ua c' s' m' e'
    by (simp add: divineMiracle_def malloc_def store_def load_def read_doubles_def
          nth_append list_update_append)
qed

text \<open>
  Claim C1. For every readable world state \<open>W\<close>, when the allocator grants the five
  requests of the copy, \<open>divineMiracle\<close> returns a new world state \<open>W'\<close> whose
  \<open>entropyLevel\<close> is the double product of \<open>W\<close>'s \<open>entropyLevel\<close> and \<open>0.9\<close>, whose
  registry is empty, whose \<open>creationTime\<close>, \<open>totalLifespanDays\<close>, \<open>maxEntropy\<close> and
  \<open>numConstants\<close> are those of \<open>W\<close> and whose constants are \<open>W\<close>'s, element for
  element. No block that existed before the call is changed: the old heap is a prefix
  of the new one, and \<open>W\<close>, its constants and its registry read as before.
\<close>

theorem divineMiracle_intervene:
  assumes v: "valid_world h u" and g: "granted 5 h" and W: "get_universe h u = Some W"
  shows "\<exists>nu h' W'.
           divineMiracle h u t = Inr (Ptr nu, h') \<and>
           get_universe h' (Ptr nu) = Some W' \<and>
           entropyLevel W' = dmul (entropyLevel W) (real_to_double 0.9) \<and>
           numEntities W' = 0 \<and> registry h' W' = Some [] \<and>
           creationTime W' = creationTime W \<and>
           totalLifespanDays W' = totalLifespanDays W \<and>
           maxEntropy W' = maxEntropy W \<and>
           numConstants W' = numConstants W \<and>
           constants_of h' W' = constants_of h W \<and>
           prefix (cells h) (cells h') \<and>
           get_universe h' u = Some W \<and>
           constants_of h' W = constants_of h W \<and>
           registry h' W = registry h W"
proof -
  from valid_worldD [OF v] W obtain ua cs sp ma en es where
      u: "u = Ptr ua" "get_universe h (Ptr ua) = Some W"
      and n: "0 \<le> sint (numConstants W)"
      and c: "constants_of h W = Some cs"
      and r: "read_doubles h (spacetime W) 4 = Some sp"
         "read_doubles h (matter W) 1 = Some ma" "read_doubles h (energy W) 1 = Some en"
      and e: "registry h W = Some es"
    by auto
  have len: "length cs = elem_count (numConstants W)"
    using c unfolding constants_of_def by (auto dest!: read_doubles_Some)
  let ?W' = "\<lparr>physicalConstants = Ptr (length (cells h) + 1),
                   numConstants = numConstants W,
                   matter = Ptr (length (cells h) + 3), energy = Ptr (length (cells h) + 4),
                   spacetime = Ptr (length (cells h) + 2),
                   consciousEntities = NULL, numEntities = 0,
                   naturalLaws_evolve = naturalLaws_evolve W,
                   creationTime = creationTime W,
                   totalLifespanDays = totalLifespanDays W,
                   entropyLevel = dmul (entropyLevel W) (real_to_double 0.9),
                   maxEntropy = maxEntropy W\<rparr>"
  let ?h' = "h\<lparr>cells := cells h @
              [Some (Universe_Object ?W'),
               Some (Doubles cs), Some (Doubles sp), Some (Doubles ma), Some (Doubles en)],
            grants := drop 5 (grants h)\<rparr>"
  have run: "divineMiracle h u t = Inr (Ptr (length (cells h)), ?h')"
    unfolding u by (rule divineMiracle_success [OF g u(2) c r])
  have new: "get_universe ?h' (Ptr (length (cells h))) = Some ?W'"
    by (simp add: get_universe_def load_def)
  have cs': "constants_of ?h' ?W' = Some cs"
    using len by (simp add: constants_of_def read_doubles_def load_def nth_append)
  have reg': "registry ?h' ?W' = Some []"
    by (simp add: registry_def)
  have old: "get_universe ?h' u = Some W"
    unfolding u by (rule get_universe_extend [OF u(2)])
  have oldc: "constants_of ?h' W = Some cs"
    using c unfolding constants_of_def by (rule read_doubles_extend)
  have oldr: "registry ?h' W = Some es"
    using e by (rule registry_extend)
  show ?thesis
    using run new cs' reg' old oldc oldr c e
    by (intro exI [of _ "length (cells h)"] exI [of _ ?h'] exI [of _ ?W']) simp
qed

theorem divineMiracle_intervene_witness:
  "valid_world (sample_heap sample_universe) (Ptr 1) \<and>
   granted 5 (sample_heap sample_universe) \<and>
   get_universe (sample_heap sample_universe) (Ptr 1) = Some sample_universe \<and>
   (\<exists>nu h' W'.
      divineMiracle (sample_heap sample_universe) (Ptr 1) NULL = Inr (Ptr nu, h') \<and>
      get_universe h' (Ptr nu) = Some W' \<and>
      entropyLevel W' = dmul (entropyLevel sample_universe) (real_to_double 0.9) \<and>
      numEntities W' = 0 \<and> registry h' W' = Some [] \<and>
      creationTime W' = creationTime sample_universe \<and>
      totalLifespanDays W' = totalLifespanDays sample_universe \<and>
      maxEntropy W' = maxEntropy sample_universe \<and>
      numConstants W' = numConstants sample_universe \<and>
      constants_of h' W' = constants_of (sample_heap sample_universe) sample_universe \<and>
      prefix (cells (sample_heap sample_universe)) (cells h') \<and>
      get_universe h' (Ptr 1) = Some sample_universe \<and>
      constants_of h' sample_universe =
        constants_of (sample_heap sample_universe) sample_universe \<and>
      registry h' sample_universe = registry (sample_heap sample_universe) sample_universe)"
proof -
  have v: "valid_world (sample_heap sample_universe) (Ptr 1)"
    and W: "get_universe (sample_heap sample_universe) (Ptr 1) = Some sample_universe"
    by (rule sample_world; simp add: sample_universe_def)+
  have g: "granted 5 (sample_heap sample_universe)" by (simp add: sample_granted)
  from divineMiracle_intervene [OF v g W, of NULL] v g W show ?thesis by blast
qed

text \<open>
  The universe that \<open>divineMiracle\<close> builds from \<open>U\<close> when the first new block has
  address \<open>L\<close>, and the heap it returns.
\<close>

lemma divineMiracle_valid:
  assumes v: "valid_world h u" and g: "granted 5 h" and W: "get_universe h u = Some W"
  shows "\<exists>h1 N.
           divineMiracle h u t = Inr (Ptr (length (cells h)), h1) \<and>
           load h1 (length (cells h)) = Some (Universe_Object N) \<and>
           length (cells h) < length (cells h1) \<and>
           entropyLevel N = dmul (entropyLevel W) (real_to_double 0.9) \<and>
           maxEntropy N = maxEntropy W \<and>
           totalLifespanDays N = totalLifespanDays W"
proof -
  from valid_worldD [OF v] W obtain ua cs sp ma en where
      u: "u = Ptr ua" "get_universe h (Ptr ua) = Some W"
      and c: "constants_of h W = Some cs"
      and r: "read_doubles h (spacetime W) 4 = Some sp"
         "read_doubles h (matter W) 1 = Some ma" "read_doubles h (energy W) 1 = Some en"
    by auto
  show ?thesis
    unfolding u divineMiracle_success [OF g u(2) c r]
    by (simp add: load_def)
qed

text \<open>
  Claim C5. For every readable world state \<open>W\<close>, when the allocator grants the five
  requests of the copy, \<open>divineCompletion\<close> returns a world state whose \<open>entropyLevel\<close> is
  its \<open>maxEntropy\<close>, the very same double (the field is assigned, not computed), whatever
  the \<open>entropyLevel\<close> of \<open>W\<close> is; \<open>maxEntropy\<close> itself is that of \<open>W\<close>.
\<close>

theorem divineCompletion_saturates:
  assumes v: "valid_world h u" and g: "granted 5 h" and W: "get_universe h u = Some W"
  shows "\<exists>nu h' W'.
           divineCompletion h u = Inr (Ptr nu, h') \<and>
           get_universe h' (Ptr nu) = Some W' \<and>
           entropyLevel W' = maxEntropy W' \<and>
           maxEntropy W' = maxEntropy W"
proof -
  from divineMiracle_valid [OF v g W, of NULL] obtain h1 N where
      run: "divineMiracle h u NULL = Inr (Ptr (length (cells h)), h1)"
      and N: "load h1 (length (cells h)) = Some (Universe_Object N)"
      and len: "length (cells h) < length (cells h1)"
      and m: "maxEntropy N = maxEntropy W"
    by blast
  from valid_worldD [OF v] obtain ua where u: "u = Ptr ua" by blast
  have "divineCompletion h u =
      Inr (Ptr (length (cells h)),
           store h1 (length (cells h)) (Universe_Object (N\<lparr>entropyLevel := maxEntropy N\<rparr>)))"
    using run N by (simp add: divineCompletion_def u)
  moreover have "get_universe
      (store h1 (length (cells h)) (Universe_Object (N\<lparr>entropyLevel := maxEntropy N\<rparr>)))
      (Ptr (length (cells h))) = Some (N\<lparr>entropyLevel := maxEntropy N\<rparr>)"
    using len by (simp add: get_universe_def load_def store_def)
  ultimately show ?thesis using m by auto
qed

theorem divineCompletion_saturates_witness:
  "valid_world (sample_heap sample_universe) (Ptr 1) \<and>
   granted 5 (sample_heap sample_universe) \<and>
   get_universe (sample_heap sample_universe) (Ptr 1) = Some sample_universe \<and>
   (\<exists>nu h' W'.
      divineCompletion (sample_heap sample_universe) (Ptr 1) = Inr (Ptr nu, h') \<and>
      get_universe h' (Ptr nu) = Some W' \<and>
      entropyLevel W' = maxEntropy W' \<and>
      maxEntropy W' = maxEntropy sample_universe)"
proof -
  have v: "valid_world (sample_heap sample_universe) (Ptr 1)"
    and W: "get_universe (sample_heap sample_universe) (Ptr 1) = Some sample_universe"
    by (rule sample_world; simp add: sample_universe_def)+
  have g: "granted 5 (sample_heap sample_universe)" by (simp add: sample_granted)
  from divineCompletion_saturates [OF v g W] v g W show ?thesis by blast
qed

text \<open>
  The state \<open>divinePrayerResponse\<close> returns for non-null arguments, a readable world and
  five granted allocations; the increment of \<open>totalLifespanDays\<close> is undefined at
  \<open>LONG_MAX\<close>.
\<close>

lemma divinePrayerResponse_run:
  assumes v: "valid_world h u" and g: "granted 5 h" and W: "get_universe h u = Some W"
  shows "\<exists>h1 N.
           load h1 (length (cells h)) = Some (Universe_Object N) \<and>
           length (cells h) < length (cells h1) \<and>
           entropyLevel N = dmul (entropyLevel W) (real_to_double 0.9) \<and>
           totalLifespanDays N = totalLifespanDays W \<and>
           divinePrayerResponse h (Ptr pa) (Some msg) u =
             (if totalLifespanDays W = LONG_MAX then Inl Undefined
              else Inr (Ptr (length (cells h)),
                        store h1 (length (cells h))
                          (Universe_Object
                             (if strstr msg ''guide me'' \<noteq> None
                              then N\<lparr>totalLifespanDays := totalLifespanDays W + 1,
                                     entropyLevel :=
                                       dmul (dmul (entropyLevel W) (real_to_double 0.9))
                                            (real_to_double 0.99)\<rparr>
                              else N\<lparr>totalLifespanDays := totalLifespanDays W + 1\<rparr>))))"
proof -
  from divineMiracle_valid [OF v g W, of NULL] obtain h1 N where
      run: "divineMiracle h u NULL = Inr (Ptr (length (cells h)), h1)"
      and N: "load h1 (length (cells h)) = Some (Universe_Object N)"
      and len: "length (cells h) < length (cells h1)"
      and e: "entropyLevel N = dmul (entropyLevel W) (real_to_double 0.9)"
      and l: "totalLifespanDays N = totalLifespanDays W"
    by blast
  from valid_worldD [OF v] obtain ua where u: "u = Ptr ua" by blast
  have "divinePrayerResponse h (Ptr pa) (Some msg) u =
             (if totalLifespanDays W = LONG_MAX then Inl Undefined
              else Inr (Ptr (length (cells h)),
                        store h1 (length (cells h))
                          (Universe_Object
                             (if strstr msg ''guide me'' \<noteq> None
                              then N\<lparr>totalLifespanDays := totalLifespanDays W + 1,
                                     entropyLevel :=
                                       dmul (dmul (entropyLevel W) (real_to_double 0.9))
                                            (real_to_double 0.99)\<rparr>
                              else N\<lparr>totalLifespanDays := totalLifespanDays W + 1\<rparr>))))"
    using run N e l by (simp add: divinePrayerResponse_def u Let_def)
  then show ?thesis using N len e l by blast
qed

text \<open>
  Claim C3, as the code has it. For every readable world state \<open>W\<close> whose
  \<open>totalLifespanDays\<close> is below \<open>LONG_MAX\<close>, every non-null entity and every message, when
  the allocator grants the five requests of the copy, \<open>divinePrayerResponse\<close> returns a
  state whose \<open>totalLifespanDays\<close> is that of \<open>W\<close> plus one, and whose \<open>entropyLevel\<close> is
  \<open>(entropyLevel * 0.9) * 0.99\<close> when the message contains \<open>guide me\<close> and
  \<open>entropyLevel * 0.9\<close> when it does not (double products).
\<close>

theorem divinePrayerResponse_extends_lifespan:
  assumes v: "valid_world h u" and g: "granted 5 h" and W: "get_universe h u = Some W"
    and b: "totalLifespanDays W \<noteq> LONG_MAX"
  shows "\<exists>nu h' W'.
           divinePrayerResponse h (Ptr pa) (Some msg) u = Inr (Ptr nu, h') \<and>
           get_universe h' (Ptr nu) = Some W' \<and>
           sint (totalLifespanDays W') = sint (totalLifespanDays W) + 1 \<and>
           entropyLevel W' =
             (if sublist ''guide me'' (c_str msg)
              then dmul (dmul (entropyLevel W) (real_to_double 0.9)) (real_to_double 0.99)
              else dmul (entropyLevel W) (real_to_double 0.9))"
proof -
  from divinePrayerResponse_run [OF v g W, of pa msg] b obtain h1 N where
      len: "length (cells h) < length (cells h1)"
      and e: "entropyLevel N = dmul (entropyLevel W) (real_to_double 0.9)"
      and run: "divinePrayerResponse h (Ptr pa) (Some msg) u =
               Inr (Ptr (length (cells h)),
                        store h1 (length (cells h))
                          (Universe_Object
                             (if strstr msg ''guide me'' \<noteq> None
                              then N\<lparr>totalLifespanDays := totalLifespanDays W + 1,
                                     entropyLevel :=
                                       dmul (dmul (entropyLevel W) (real_to_double 0.9))
                                            (real_to_double 0.99)\<rparr>
                              else N\<lparr>totalLifespanDays := totalLifespanDays W + 1\<rparr>)))"
    by auto
  let ?W' = "if strstr msg ''guide me'' \<noteq> None
             then N\<lparr>totalLifespanDays := totalLifespanDays W + 1,
                    entropyLevel :=
                      dmul (dmul (entropyLevel W) (real_to_double 0.9)) (real_to_double 0.99)\<rparr>
             else N\<lparr>totalLifespanDays := totalLifespanDays W + 1\<rparr>"
  have get: "get_universe (store h1 (length (cells h)) (Universe_Object ?W'))
               (Ptr (length (cells h))) = Some ?W'"
    using len by (simp add: get_universe_def load_def store_def)
  have life: "sint (totalLifespanDays ?W') = sint (totalLifespanDays W) + 1"
    using sint_succ_long [OF b] by simp
  have ent: "entropyLevel ?W' =
             (if sublist ''guide me'' (c_str msg)
              then dmul (dmul (entropyLevel W) (real_to_double 0.9)) (real_to_double 0.99)
              else dmul (entropyLevel W) (real_to_double 0.9))"
    using e strstr_guide_me [of msg] by simp
  show ?thesis using run get life ent by blast
qed

theorem divinePrayerResponse_extends_lifespan_witness:
  "valid_world (populated_heap populated_universe) (Ptr 1) \<and>
   granted 5 (populated_heap populated_universe) \<and>
   get_universe (populated_heap populated_universe) (Ptr 1) = Some populated_universe \<and>
   totalLifespanDays populated_universe \<noteq> LONG_MAX \<and>
   sublist ''guide me'' (c_str ''Prayer from Human1: Please guide me.'') \<and>
   (\<exists>nu h' W'.
      divinePrayerResponse (populated_heap populated_universe) (Ptr 6)
          (Some ''Prayer from Human1: Please guide me.'') (Ptr 1) = Inr (Ptr nu, h') \<and>
      get_universe h' (Ptr nu) = Some W' \<and>
      sint (totalLifespanDays W') = sint (totalLifespanDays populated_universe) + 1 \<and>
      entropyLevel W' =
        dmul (dmul (entropyLevel populated_universe) (real_to_double 0.9))
             (real_to_double 0.99))"
proof -
  have v: "valid_world (populated_heap populated_universe) (Ptr 1)"
    and W: "get_universe (populated_heap populated_universe) (Ptr 1) = Some populated_universe"
    by (rule populated_world; simp add: populated_universe_def sample_universe_def)+
  have g: "granted 5 (populated_heap populated_universe)" by (simp add: populated_granted)
  have b: "totalLifespanDays populated_universe \<noteq> LONG_MAX"
    by (simp add: populated_universe_def sample_universe_def LONG_MAX_def)
  have "strstr ''Prayer from Human1: Please guide me.'' ''guide me'' \<noteq> None"
    by (simp add: strstr_def c_str_def)
  then have s: "sublist ''guide me'' (c_str ''Prayer from Human1: Please guide me.'')"
    by (simp only: strstr_guide_me)
  from divinePrayerResponse_extends_lifespan
         [OF v g W b, of 6 "''Prayer from Human1: Please guide me.''"] s
  have "\<exists>nu h' W'.
      divinePrayerResponse (populated_heap populated_universe) (Ptr 6)
          (Some ''Prayer from Human1: Please guide me.'') (Ptr 1) = Inr (Ptr nu, h') \<and>
      get_universe h' (Ptr nu) = Some W' \<and>
      sint (totalLifespanDays W') = sint (totalLifespanDays populated_universe) + 1 \<and>
      entropyLevel W' =
        dmul (dmul (entropyLevel populated_universe) (real_to_double 0.9))
             (real_to_double 0.99)"
    by (simp only: if_True)
  with v g W b s show ?thesis by blast
qed

text \<open>
  The claim as stated fails at the largest lifespan: for a world state whose
  \<open>totalLifespanDays\<close> is \<open>LONG_MAX\<close> the increment overflows, which C leaves undefined,
  and no state with \<open>totalLifespanDays = LONG_MAX + 1\<close> can be returned.
\<close>

theorem divinePrayerResponse_overflows_at_LONG_MAX:
  "divinePrayerResponse
     (populated_heap (populated_universe\<lparr>totalLifespanDays := LONG_MAX\<rparr>)) (Ptr 6)
     (Some ''Prayer from Human1: Please guide me.'') (Ptr 1) = Inl Undefined"
proof -
  let ?U = "populated_universe\<lparr>totalLifespanDays := LONG_MAX\<rparr>"
  have v: "valid_world (populated_heap ?U) (Ptr 1)"
    and W: "get_universe (populated_heap ?U) (Ptr 1) = Some ?U"
    by (rule populated_world; simp add: populated_universe_def sample_universe_def)+
  have g: "granted 5 (populated_heap ?U)" by (simp add: populated_granted)
  from divinePrayerResponse_run
         [OF v g W, of 6 "''Prayer from Human1: Please guide me.''"]
  show ?thesis by auto
qed

text \<open>
  Claim C4, as the code has it. \<open>divinePrayerResponse\<close> returns the null pointer, and
  the heap unchanged (no new state, no allocation), whenever the entity, the message or
  the world state is null. The code does not reject an empty message: it is a message
  that does not contain \<open>guide me\<close>.
\<close>

theorem divinePrayerResponse_null_argument:
  assumes "pray_er = NULL \<or> prayer = None \<or> u = NULL"
  shows "divinePrayerResponse h pray_er prayer u = Inr (NULL, h)"
  using assms by (auto simp: divinePrayerResponse_def split: ptr.splits option.splits)

theorem divinePrayerResponse_null_argument_witness:
  "divinePrayerResponse (populated_heap populated_universe) NULL
      (Some ''Prayer from Human1: Please guide me.'') (Ptr 1) =
     Inr (NULL, populated_heap populated_universe) \<and>
   divinePrayerResponse (populated_heap populated_universe) (Ptr 6) None (Ptr 1) =
     Inr (NULL, populated_heap populated_universe) \<and>
   divinePrayerResponse (populated_heap populated_universe) (Ptr 6)
      (Some ''Prayer from Human1: Please guide me.'') NULL =
     Inr (NULL, populated_heap populated_universe)"
  using divinePrayerResponse_null_argument
          [of NULL "Some ''Prayer from Human1: Please guide me.''" "Ptr 1"
              "populated_heap populated_universe"]
        divinePrayerResponse_null_argument
          [of "Ptr 6" None "Ptr 1" "populated_heap populated_universe"]
        divinePrayerResponse_null_argument
          [of "Ptr 6" "Some ''Prayer from Human1: Please guide me.''" NULL
              "populated_heap populated_universe"]
  by simp

text \<open>
  The claim as stated fails for the empty message: in the populated sample world the
  call with the message \<open>""\<close> returns a new world state at address 11, a copy with the
  lifespan extended by one day and the entropy reduced by the factor \<open>0.9\<close>.
\<close>

theorem divinePrayerResponse_accepts_empty_message:
  "divinePrayerResponse (populated_heap populated_universe) (Ptr 6) (Some '''') (Ptr 1) =
     Inr (Ptr 11,
          \<lparr>cells = cells (populated_heap populated_universe) @
             [Some (Universe_Object
                      \<lparr>physicalConstants = Ptr 12, numConstants = 2, matter = Ptr 14,
                       energy = Ptr 15, spacetime = Ptr 13, consciousEntities = NULL,
                       numEntities = 0, naturalLaws_evolve = Fn_universeEvolveFunction,
                       creationTime = 1000, totalLifespanDays = 1825001,
                       entropyLevel = dmul (Fin (1 / 2)) (real_to_double 0.9),
                       maxEntropy = Fin 1\<rparr>),
              Some (Doubles [Fin 299792458, Fin 1]),
              Some (Doubles [Fin 0, Fin 0, Fin 0, Fin 0]),
              Some (Doubles [Fin 1]), Some (Doubles [Fin 1])],
           grants = replicate 6 True\<rparr>)"
  by (simp add: divinePrayerResponse_def divineMiracle_def malloc_def store_def load_def
        read_doubles_def populated_heap_def populated_universe_def sample_cells_def
        sample_universe_def elem_count_def byte_size_def LONG_MAX_def strstr_def c_str_def
        replicate_Cons_numeral Let_def)


section \<open>The terminal-time calculation\<close>

text \<open>The loop over the constants completes on a readable world.\<close>

lemma physical_loop_total:
  "0 \<le> sint (numConstants U) \<Longrightarrow> constants_of h U = Some cs \<Longrightarrow> 0 \<le> i \<Longrightarrow>
     \<exists>s. physical_loop h U i acc = Inr s"
proof (induction h U i acc rule: physical_loop.induct)
  case (1 h U i acc)
  show ?case
  proof (cases "i < sint (numConstants U) \<and> i < 10")
    case True
    from "1.prems" obtain a bs where b: "physicalConstants U = Ptr a"
        "load h a = Some (Doubles bs)" "nat (sint (numConstants U)) \<le> length bs"
      by (auto simp: constants_of_def elem_count_nonneg load_Some_iff dest!: read_doubles_Some)
    have i: "nat i < length bs" using True b(3) "1.prems"(3) by linarith
    have rd: "read_double h (physicalConstants U) i = Some (bs ! nat i)"
      using b i "1.prems"(3) by (simp add: read_double_def)
    from "1.IH" [OF True rd refl "1.prems"(1,2)] "1.prems"(3)
    obtain s where
      "physical_loop h U (i + 1)
         (dadd acc (ddiv (ddiv (bs ! nat i) (dadd (fabs (bs ! nat i)) (Fin 1)))
                         (int_to_double (i + 1)))) = Inr s"
      by auto
    then show ?thesis
      using True rd by (subst physical_loop.simps) (simp add: Let_def)
  next
    case False
    then show ?thesis by (subst physical_loop.simps) auto
  qed
qed

text \<open>
  Claim C7, as the code has it. The calculator has no check of \<open>maxEntropy\<close> and a
  division of doubles does not fail: for every readable world state whose \<open>maxEntropy\<close>
  is zero and whose \<open>entropyLevel\<close> is not negative the quotient is \<open>+\<infinity>\<close> or a NaN, the
  final formula is \<open>-\<infinity>\<close> or a NaN, \<open>fmax\<close> turns it into \<open>0.0\<close>, and the calculator
  returns the number 0.
\<close>

theorem calculateEndOfWorld_zero_maxEntropy:
  assumes v: "valid_world h u" and W: "get_universe h u = Some W"
    and z: "maxEntropy W = Fin 0" and e: "\<not> sign_bit (entropyLevel W)"
  shows "calculateEndOfWorld h now u = Inr 0"
proof -
  from valid_worldD [OF v] W obtain ua cs where
      u: "u = Ptr ua" "get_universe h (Ptr ua) = Some W"
      and n: "0 \<le> sint (numConstants W)"
      and c: "constants_of h W = Some cs"
    by auto
  have ld: "load h ua = Some (Universe_Object W)"
    using get_universe_Some [OF u(2)] by (simp add: load_Some_iff)
  obtain s where s: "physical_loop h W 0 (Fin 0) = Inr s"
    using physical_loop_total [OF n c, of 0 "Fin 0"] by auto
  define d where "d = fmax (Fin 0)
      (dsub (int_to_double (sint (totalLifespanDays W)))
         (ddiv (difftime now (creationTime W)) (int_to_double (sint SECONDS_PER_DAY))))"
  define p where "p = fmod (fabs s) (Fin 100)"
  define k where "k = fmin (Fin 1000)
      (dmul (int_to_double (sint (numEntities W))) (real_to_double 0.12345))"
  define r where "r = ddiv (entropyLevel W) (Fin 0)"
  have unfold: "calculateEndOfWorld h now u =
      double_to_long (fmin (int_to_double (sint LONG_MAX))
        (fmax (Fin 0) (dadd (dsub (dmul d (dsub (Fin 1) r)) (dmul p r)) k)))"
    by (simp add: calculateEndOfWorld_def u ld s z Let_def d_def p_def k_def r_def)
  have "fmax (Fin 0) (dadd (dsub (dmul d (dsub (Fin 1) r)) (dmul p r)) k) = Fin 0"
  proof -
    consider "r = NaN" | "r = PInf" using ddiv_by_zero [OF e] by (auto simp: r_def)
    then show ?thesis
    proof cases
      case 1
      then show ?thesis by (simp add: nan_ratio)
    next
      case 2
      have A: "dmul d (dsub (Fin 1) PInf) = NInf \<or> dmul d (dsub (Fin 1) PInf) = NaN"
        using fmax_zero_cases unfolding d_def by (rule days_times_minus_infinity)
      have B: "dmul p PInf = PInf \<or> dmul p PInf = NaN"
        using fmod_fabs_cases unfolding p_def by (rule influence_times_infinity)
      show ?thesis
        unfolding 2
        by (intro fmax_zero_minus_infinity minus_infinity_add minus_infinity_sub A B)
    qed
  qed
  then show ?thesis unfolding unfold by (simp add: clamp_zero)
qed

lemma sample_loop:
  assumes "physicalConstants U = Ptr 2" "numConstants U = 2"
  shows "physical_loop (sample_heap U) U 0 (Fin 0) =
           Inr (Fin (703687439898841 / 562949953421312))"
proof -
  have c0: "dadd (Fin 0) (ddiv (ddiv (Fin 299792458) (dadd (fabs (Fin 299792458)) (Fin 1)))
                             (int_to_double 1)) =
            Fin (9007199224696209 / 9007199254740992)"
    by (simp add: double_eval round_eval)
  have c1: "dadd (Fin (9007199224696209 / 9007199254740992))
                 (ddiv (ddiv (Fin 1) (dadd (fabs (Fin 1)) (Fin 1))) (int_to_double 2)) =
            Fin (703687439898841 / 562949953421312)"
    by (simp add: double_eval round_eval)
  have r0: "read_double (sample_heap U) (Ptr 2) 0 = Some (Fin 299792458)"
    and r1: "read_double (sample_heap U) (Ptr 2) 1 = Some (Fin 1)"
    by (simp_all add: read_double_def load_def sample_heap_def sample_cells_def)
  have "physical_loop (sample_heap U) U 2 (Fin (703687439898841 / 562949953421312)) =
          Inr (Fin (703687439898841 / 562949953421312))"
    using assms by (subst physical_loop.simps) simp
  then have "physical_loop (sample_heap U) U 1 (Fin (9007199224696209 / 9007199254740992)) =
          Inr (Fin (703687439898841 / 562949953421312))"
    using assms r1 c1 by (subst physical_loop.simps) (simp add: Let_def)
  then show ?thesis
    using assms r0 c0 by (subst physical_loop.simps) (simp add: Let_def)
qed

lemma sample_calculation:
  assumes "physicalConstants U = Ptr 2" "numConstants U = 2"
  shows "calculateEndOfWorld (sample_heap U) now (Ptr 1) =
     double_to_long (fmin (int_to_double (sint LONG_MAX))
       (fmax (Fin 0)
          (dadd
             (dsub
                (dmul
                   (fmax (Fin 0)
                      (dsub (int_to_double (sint (totalLifespanDays U)))
                         (ddiv (difftime now (creationTime U))
                            (int_to_double (sint SECONDS_PER_DAY)))))
                   (dsub (Fin 1) (ddiv (entropyLevel U) (maxEntropy U))))
                (dmul (Fin (703687439898841 / 562949953421312))
                   (ddiv (entropyLevel U) (maxEntropy U))))
             (fmin (Fin 1000)
                (dmul (int_to_double (sint (numEntities U))) (real_to_double 0.12345))))))"
proof -
  have ld: "load (sample_heap U) (Suc 0) = Some (Universe_Object U)"
    by (simp add: load_def sample_heap_def sample_cells_def)
  have p: "fmod (Fin (703687439898841 / 562949953421312)) (Fin 100) =
           Fin (703687439898841 / 562949953421312)"
    by (simp add: double_eval mk_fin_def)
  show ?thesis
    by (simp add: calculateEndOfWorld_def ld sample_loop [OF assms] p Let_def)
qed

lemma elapsed_zero:
  "ddiv (difftime 1000 1000) (int_to_double (sint SECONDS_PER_DAY)) = Fin 0"
proof -
  have "difftime 1000 1000 = Fin 0" by (simp add: difftime_def round_eval)
  moreover have "int_to_double (sint SECONDS_PER_DAY) = Fin 86400"
    by (simp add: SECONDS_PER_DAY_def round_eval)
  moreover have "ddiv (Fin 0) (Fin 86400) = Fin 0" by (simp add: double_eval round_eval)
  ultimately show ?thesis by simp
qed

lemma no_entities_influence:
  "fmin (Fin 1000) (dmul (int_to_double 0) (real_to_double (2469 / 20000))) = Fin 0"
proof -
  have "dmul (int_to_double 0) (real_to_double (2469 / 20000)) = Fin 0"
    by (simp add: double_eval round_eval)
  then show ?thesis by (simp add: double_eval)
qed

theorem calculateEndOfWorld_zero_maxEntropy_witness:
  "valid_world (sample_heap (sample_universe\<lparr>entropyLevel := Fin 0, maxEntropy := Fin 0\<rparr>))
     (Ptr 1) \<and>
   \<not> sign_bit (Fin 0) \<and>
   calculateEndOfWorld
     (sample_heap (sample_universe\<lparr>entropyLevel := Fin 0, maxEntropy := Fin 0\<rparr>)) 1000
     (Ptr 1) = Inr 0"
proof -
  let ?U = "sample_universe\<lparr>entropyLevel := Fin 0, maxEntropy := Fin 0\<rparr>"
  have v: "valid_world (sample_heap ?U) (Ptr 1)"
    and W: "get_universe (sample_heap ?U) (Ptr 1) = Some ?U"
    by (rule sample_world; simp add: sample_universe_def)+
  from calculateEndOfWorld_zero_maxEntropy [OF v W, of 1000] v show ?thesis by simp
qed

text \<open>
  The claim as stated fails on the sample world with \<open>maxEntropy = 0\<close> (and the
  \<open>entropyLevel\<close> \<open>0.5\<close>): the entropy ratio is \<open>+\<infinity>\<close>, and the calculator returns the
  number 0, not an error.
\<close>

theorem calculateEndOfWorld_divides_by_zero:
  "calculateEndOfWorld (sample_heap (sample_universe\<lparr>maxEntropy := Fin 0\<rparr>)) 1000 (Ptr 1) =
     Inr 0"
proof -
  let ?U = "sample_universe\<lparr>maxEntropy := Fin 0\<rparr>"
  have ratio: "ddiv (Fin (1 / 2)) (Fin 0) = PInf" by (simp add: double_eval mk_inf_def)
  have life: "int_to_double 1825000 = Fin 1825000" by (simp add: round_eval)
  have days: "fmax (Fin 0) (dsub (Fin 1825000) (Fin 0)) = Fin 1825000"
    by (simp add: double_eval round_eval)
  have a: "dmul (Fin 1825000) (dsub (Fin 1) PInf) = NInf"
    by (simp add: double_eval mk_inf_def)
  have b: "dmul (Fin (703687439898841 / 562949953421312)) PInf = PInf"
    by (simp add: double_eval mk_inf_def)
  have c: "fmax (Fin 0) (dadd (dsub NInf PInf) (Fin 0)) = Fin 0"
    by (simp add: double_eval)
  have "calculateEndOfWorld (sample_heap ?U) 1000 (Ptr 1) =
          double_to_long (fmin (int_to_double (sint LONG_MAX)) (Fin 0))"
    by (subst sample_calculation)
       (simp_all add: sample_universe_def elapsed_zero no_entities_influence ratio life
          days a b c)
  then show ?thesis by (simp add: clamp_zero)
qed

text \<open>
  What the clamp achieves: whenever the calculator returns a number for a world state,
  the number is not negative. The conversion is applied to a double between \<open>0\<close> and
  \<open>2^63\<close>, the value of \<open>(double)LONG_MAX\<close>; it is defined below \<open>2^63\<close> only.
\<close>

lemma clamp_defined_nonneg:
  assumes "double_to_long (fmin (int_to_double (sint LONG_MAX)) (fmax (Fin 0) x)) = Inr r"
  shows "0 \<le> sint r"
proof -
  consider "fmax (Fin 0) x = PInf" | q where "0 \<le> q" "fmax (Fin 0) x = Fin q"
    using fmax_zero_cases [of x] by auto
  then show ?thesis
  proof cases
    case 1
    then show ?thesis
      using assms
      by (simp add: LONG_MAX_as_double fmin_def dle_def double_to_long_def is_nan_def
            is_inf_def)
  next
    case 2
    show ?thesis
    proof (cases "2 ^ 63 \<le> q")
      case True
      then show ?thesis
        using assms 2
        by (simp add: LONG_MAX_as_double fmin_def dle_def double_to_long_def is_nan_def
              is_inf_def)
    next
      case False
      then have lt: "\<lfloor>q\<rfloor> < 2 ^ 63" by (simp add: floor_less_iff)
      have ge: "0 \<le> \<lfloor>q\<rfloor>" using 2(1) by simp
      have "r = word_of_int \<lfloor>q\<rfloor>"
        using assms 2 False lt ge
        by (simp add: LONG_MAX_as_double fmin_def dle_def double_to_long_def is_nan_def
              is_inf_def split: if_splits)
      then have "sint r = signed_take_bit 63 \<lfloor>q\<rfloor>" by (simp add: sint_sbintrunc')
      also have "\<dots> = \<lfloor>q\<rfloor>" using lt ge by (intro signed_take_bit_int_eq_self) simp_all
      finally show ?thesis using ge by simp
    qed
  qed
qed

lemma calculateEndOfWorld_defined_nonneg:
  assumes "calculateEndOfWorld h now (Ptr ua) = Inr r"
  shows "0 \<le> sint r"
  using assms
  by (auto simp: calculateEndOfWorld_def Let_def dest: clamp_defined_nonneg
           split: option.splits block.splits sum.splits)

text \<open>
  Claim C2 at a failing input. The world has the largest lifespan a \<open>long\<close> can hold,
  the \<open>entropyLevel\<close> \<open>0.0\<close> (within \<open>[0, maxEntropy]\<close>), no entities and two finite
  constants, and is evaluated at its creation time. \<open>LONG_MAX\<close> is not a double: the
  conversions of \<open>totalLifespanDays\<close> and of \<open>LONG_MAX\<close> both round to \<open>2^63\<close>, \<open>fmin\<close>
  leaves \<open>2^63\<close>, and \<open>2^63\<close> is not a \<open>long\<close>: the final conversion is undefined, where
  the claim promises a result between 0 and \<open>LONG_MAX\<close>.
\<close>

theorem calculateEndOfWorld_clamp_overflow:
  "calculateEndOfWorld
     (sample_heap (sample_universe\<lparr>totalLifespanDays := LONG_MAX, entropyLevel := Fin 0\<rparr>))
     1000 (Ptr 1) = Inl Undefined"
proof -
  let ?U = "sample_universe\<lparr>totalLifespanDays := LONG_MAX, entropyLevel := Fin 0\<rparr>"
  have ratio: "ddiv (Fin 0) (Fin 1) = Fin 0" by (simp add: double_eval round_eval)
  have days: "fmax (Fin 0) (dsub (Fin 9223372036854775808) (Fin 0)) = Fin 9223372036854775808"
    by (simp add: double_eval round_eval)
  have a: "dmul (Fin 9223372036854775808) (dsub (Fin 1) (Fin 0)) = Fin 9223372036854775808"
    by (simp add: double_eval round_eval)
  have b: "dmul (Fin (703687439898841 / 562949953421312)) (Fin 0) = Fin 0"
    by (simp add: double_eval round_eval)
  have c: "fmax (Fin 0) (dadd (dsub (Fin 9223372036854775808) (Fin 0)) (Fin 0)) =
           Fin 9223372036854775808"
    by (simp add: double_eval round_eval)
  have d: "double_to_long (fmin (Fin 9223372036854775808) (Fin 9223372036854775808)) =
           Inl Undefined"
    by (simp add: fmin_def dle_def double_to_long_def is_nan_def is_inf_def)
  show ?thesis
    by (subst sample_calculation)
       (simp_all add: sample_universe_def elapsed_zero no_entities_influence
          LONG_MAX_as_double ratio days a b c d)
qed

end
